theory Spec2Isabelle
  imports Complex_Main
begin

section \<open>Numbers\<close>

text \<open>
  A TypeScript \<open>number\<close> that takes part in geometry is modelled by \<open>jsnum\<close>: a finite
  value, one of the two infinities, or NaN. Finite values are exact reals: rounding and
  overflow of IEEE doubles are idealised away, and there is no signed zero (a zero divisor
  counts as \<open>+0\<close>). The special values follow IEEE 754 as JavaScript applies it:
  \<open>0 / 0\<close> is NaN, every arithmetic operation on NaN is NaN, and every comparison with
  NaN is false. Counters that only ever hold integers (entity ids, the score, ammunition)
  are modelled by \<open>int\<close>.
\<close>

datatype jsnum = Fin real | PInf | NInf | NaN

fun js_neg :: "jsnum \<Rightarrow> jsnum" where
  "js_neg (Fin a) = Fin (- a)"
| "js_neg PInf = NInf"
| "js_neg NInf = PInf"
| "js_neg NaN = NaN"

fun js_add :: "jsnum \<Rightarrow> jsnum \<Rightarrow> jsnum" where
  "js_add NaN _ = NaN"
| "js_add _ NaN = NaN"
| "js_add (Fin a) (Fin b) = Fin (a + b)"
| "js_add PInf NInf = NaN"
| "js_add NInf PInf = NaN"
| "js_add PInf _ = PInf"
| "js_add NInf _ = NInf"
| "js_add (Fin a) PInf = PInf"
| "js_add (Fin a) NInf = NInf"

definition js_sub :: "jsnum \<Rightarrow> jsnum \<Rightarrow> jsnum" where
  "js_sub a b = js_add a (js_neg b)"

fun js_mul :: "jsnum \<Rightarrow> jsnum \<Rightarrow> jsnum" where
  "js_mul NaN _ = NaN"
| "js_mul _ NaN = NaN"
| "js_mul (Fin a) (Fin b) = Fin (a * b)"
| "js_mul PInf PInf = PInf"
| "js_mul NInf NInf = PInf"
| "js_mul PInf NInf = NInf"
| "js_mul NInf PInf = NInf"
| "js_mul PInf (Fin b) = (if b = 0 then NaN else if 0 < b then PInf else NInf)"
| "js_mul NInf (Fin b) = (if b = 0 then NaN else if 0 < b then NInf else PInf)"
| "js_mul (Fin a) PInf = (if a = 0 then NaN else if 0 < a then PInf else NInf)"
| "js_mul (Fin a) NInf = (if a = 0 then NaN else if 0 < a then NInf else PInf)"

fun js_div :: "jsnum \<Rightarrow> jsnum \<Rightarrow> jsnum" where
  "js_div NaN _ = NaN"
| "js_div _ NaN = NaN"
| "js_div (Fin a) (Fin b) =
     (if b = 0 then (if a = 0 then NaN else if 0 < a then PInf else NInf)
      else Fin (a / b))"
| "js_div (Fin a) PInf = Fin 0"
| "js_div (Fin a) NInf = Fin 0"
| "js_div PInf (Fin b) = (if b < 0 then NInf else PInf)"
| "js_div NInf (Fin b) = (if b < 0 then PInf else NInf)"
| "js_div PInf _ = NaN"
| "js_div NInf _ = NaN"

text \<open>\<open>Math.sqrt\<close>\<close>

fun js_sqrt :: "jsnum \<Rightarrow> jsnum" where
  "js_sqrt (Fin a) = (if a < 0 then NaN else Fin (sqrt a))"
| "js_sqrt PInf = PInf"
| "js_sqrt NInf = NaN"
| "js_sqrt NaN = NaN"

text \<open>\<open>Math.abs\<close>\<close>

fun js_abs :: "jsnum \<Rightarrow> jsnum" where
  "js_abs (Fin a) = Fin \<bar>a\<bar>"
| "js_abs PInf = PInf"
| "js_abs NInf = PInf"
| "js_abs NaN = NaN"

text \<open>The comparisons \<open><\<close> and \<open><=\<close>; \<open>a > b\<close> is \<open>js_lt b a\<close> and \<open>a >= b\<close> is \<open>js_le b a\<close>.\<close>

fun js_lt :: "jsnum \<Rightarrow> jsnum \<Rightarrow> bool" where
  "js_lt NaN _ = False"
| "js_lt _ NaN = False"
| "js_lt (Fin a) (Fin b) = (a < b)"
| "js_lt _ NInf = False"
| "js_lt PInf _ = False"
| "js_lt NInf _ = True"
| "js_lt (Fin a) PInf = True"

fun js_le :: "jsnum \<Rightarrow> jsnum \<Rightarrow> bool" where
  "js_le NaN _ = False"
| "js_le _ NaN = False"
| "js_le (Fin a) (Fin b) = (a \<le> b)"
| "js_le NInf _ = True"
| "js_le _ PInf = True"
| "js_le PInf _ = False"
| "js_le (Fin a) NInf = False"

definition js_ge :: "jsnum \<Rightarrow> jsnum \<Rightarrow> bool" where
  "js_ge a b = js_le b a"

text \<open>\<open>x ** 2\<close>: the square, which on every \<open>jsnum\<close> agrees with \<open>x * x\<close>.\<close>

definition js_sq :: "jsnum \<Rightarrow> jsnum" where
  "js_sq a = js_mul a a"

fun is_fin :: "jsnum \<Rightarrow> bool" where
  "is_fin (Fin a) = True"
| "is_fin _ = False"

section \<open>Types\<close>

record Point =
  px :: jsnum
  py :: jsnum

record Rocket =
  r_id :: int
  r_start :: Point
  r_current :: Point
  r_target :: Point
  r_speed :: jsnum
  r_color :: string

record Missile =
  m_id :: int
  m_start :: Point
  m_current :: Point
  m_target :: Point
  m_speed :: jsnum
  turretIndex :: int

record Explosion =
  e_id :: int
  pos :: Point
  radius :: jsnum
  maxRadius :: jsnum
  growing :: bool
  e_done :: bool

record City =
  c_id :: int
  c_x :: jsnum
  c_active :: bool

record Turret =
  t_id :: int
  t_x :: jsnum
  ammo :: int
  maxAmmo :: int
  t_active :: bool

datatype GameState = START | PLAYING | WON | LOST

text \<open>
  The state of the component: the React state (\<open>gameState\<close>, \<open>score\<close>) and the refs.
  \<open>setScore\<close> and \<open>setGameState\<close> write the fields of the record; the value of \<open>score\<close>
  and \<open>gameState\<close> that a callback reads is the one of the render that created it, that is
  the field's value when the callback starts.
\<close>

record World =
  rockets :: "Rocket list"
  missiles :: "Missile list"
  explosions :: "Explosion list"
  cities :: "City list"
  turrets :: "Turret list"
  nextId :: int
  lastSpawnTime :: real
  score :: int
  gameState :: GameState

text \<open>The canvas element: its \<open>width\<close> and \<open>height\<close> attributes are non-negative integers.\<close>

record Canvas =
  width :: real
  height :: real

section \<open>Constants\<close>

definition CITY_COUNT :: nat where "CITY_COUNT = 6"
definition TURRET_COUNT :: nat where "TURRET_COUNT = 3"
definition WIN_SCORE :: int where "WIN_SCORE = 1000"
definition ROCKET_SCORE :: int where "ROCKET_SCORE = 20"
definition TURRET_AMMO :: "int list" where "TURRET_AMMO = [20, 40, 20]"

section \<open>Helper functions\<close>

definition getDistance :: "Point \<Rightarrow> Point \<Rightarrow> jsnum" where
  "getDistance p1 p2 =
     js_sqrt (js_add (js_sq (js_sub (px p1) (px p2))) (js_sq (js_sub (py p1) (py p2))))"

section \<open>Initialization\<close>

text \<open>
  The state before the first \<open>initGame\<close>: the initial values of \<open>useState\<close> and \<open>useRef\<close>.
\<close>

definition initial_world :: World where
  "initial_world =
     \<lparr>rockets = [], missiles = [], explosions = [], cities = [], turrets = [],
      nextId = 0, lastSpawnTime = 0, score = 0, gameState = START\<rparr>"

text \<open>
  The loop of \<open>initGame\<close> over the slots \<open>i = 1 .. totalSlots\<close>; \<open>turretIdx\<close> counts the
  turrets pushed so far. \<open>TURRET_AMMO[turretIdx]\<close> is in range for the three turret slots.
\<close>

fun init_slots :: "nat list \<Rightarrow> real \<Rightarrow> nat \<Rightarrow> Turret list \<times> City list \<Rightarrow> Turret list \<times> City list" where
  "init_slots [] slotWidth turretIdx (ts, cs) = (ts, cs)"
| "init_slots (i # is) slotWidth turretIdx (ts, cs) =
     (let x = Fin (real i * slotWidth) in
      if i = 1 \<or> i = 5 \<or> i = 9
      then init_slots is slotWidth (Suc turretIdx)
             (ts @ [\<lparr>t_id = int i, t_x = x, ammo = TURRET_AMMO ! turretIdx,
                     maxAmmo = TURRET_AMMO ! turretIdx, t_active = True\<rparr>], cs)
      else init_slots is slotWidth turretIdx
             (ts, cs @ [\<lparr>c_id = int i, c_x = x, c_active = True\<rparr>]))"

text \<open>\<open>innerWidth\<close> is \<open>window.innerWidth\<close>, \<open>now\<close> is \<open>performance.now()\<close>.\<close>

definition initGame :: "real \<Rightarrow> real \<Rightarrow> World \<Rightarrow> World" where
  "initGame innerWidth now s =
     (let totalSlots = TURRET_COUNT + CITY_COUNT;
          slotWidth = innerWidth / real (totalSlots + 1);
          (ts, cs) = init_slots [1 ..< Suc totalSlots] slotWidth 0 ([], [])
      in s\<lparr>turrets := ts, cities := cs, rockets := [], missiles := [], explosions := [],
            score := 0, gameState := PLAYING, lastSpawnTime := now\<rparr>)"

section \<open>Handlers\<close>

text \<open>
  The \<open>forEach\<close> of \<open>handleCanvasClick\<close> that looks for the closest active turret with
  ammunition. \<open>bestTurret\<close> is an index into \<open>turretsRef.current\<close> (\<open>None\<close> for \<open>null\<close>);
  \<open>minDist\<close> starts at \<open>Infinity\<close>.
\<close>

fun find_best :: "Turret list \<Rightarrow> nat \<Rightarrow> jsnum \<Rightarrow> nat option \<times> jsnum \<Rightarrow> nat option \<times> jsnum" where
  "find_best [] i x acc = acc"
| "find_best (t # ts) i x (bestTurret, minDist) =
     (if t_active t \<and> 0 < ammo t
      then (let d = js_abs (js_sub (t_x t) x) in
            if js_lt d minDist then find_best ts (Suc i) x (Some i, d)
            else find_best ts (Suc i) x (bestTurret, minDist))
      else find_best ts (Suc i) x (bestTurret, minDist))"

text \<open>
  \<open>handleCanvasClick\<close>, from the canvas coordinates \<open>(x, y)\<close> of the event on. The canvas
  is \<open>None\<close> when \<open>canvasRef.current\<close> is null.
\<close>

definition handleCanvasClick :: "Canvas option \<Rightarrow> jsnum \<Rightarrow> jsnum \<Rightarrow> World \<Rightarrow> World" where
  "handleCanvasClick cv x y s =
     (if gameState s \<noteq> PLAYING then s
      else case cv of
        None \<Rightarrow> s
      | Some canvas \<Rightarrow>
          (case fst (find_best (turrets s) 0 x (None, PInf)) of
             None \<Rightarrow> s
           | Some i \<Rightarrow>
               (let bestTurret = turrets s ! i in
                s\<lparr>turrets := (turrets s)[i := bestTurret\<lparr>ammo := ammo bestTurret - 1\<rparr>],
                  missiles := missiles s @
                    [\<lparr>m_id = nextId s,
                      m_start = \<lparr>px = t_x bestTurret, py = Fin (height canvas - 50)\<rparr>,
                      m_current = \<lparr>px = t_x bestTurret, py = Fin (height canvas - 50)\<rparr>,
                      m_target = \<lparr>px = x, py = y\<rparr>,
                      m_speed = Fin 6,
                      turretIndex = int i\<rparr>],
                  nextId := nextId s + 1\<rparr>)))"

section \<open>Game loop\<close>

text \<open>
  What one call of \<open>update\<close> reads from outside the component: the timestamp passed by
  \<open>requestAnimationFrame\<close>, the canvas (\<open>None\<close> when the ref or its 2d context is null) and
  the results of the two calls of \<open>Math.random()\<close> of the spawner.
\<close>

record Frame =
  time :: real
  canvas :: "Canvas option"
  random_start :: real
  random_target :: real

text \<open>
  Reading \<open>target.x\<close> of an \<open>undefined\<close> array element throws a TypeError, which leaves
  \<open>update\<close> at once.
\<close>

datatype error = TypeError

subsection \<open>1. Spawn rockets\<close>

definition spawn_rockets :: "Frame \<Rightarrow> Canvas \<Rightarrow> int \<Rightarrow> World \<Rightarrow> error + World" where
  "spawn_rockets f cv sc s =
     (let spawnRate = max 500 (2000 - (real_of_int sc / 100) * 200) in
      if time f - lastSpawnTime s > spawnRate
      then (let startX = random_start f * width cv;
                activeTargets =
                  map (\<lambda>c. (c_x c, ''city'')) (filter c_active (cities s)) @
                  map (\<lambda>t. (t_x t, ''turret'')) (filter t_active (turrets s))
            in if length activeTargets > 0
               then (let k = \<lfloor>random_target f * real (length activeTargets)\<rfloor> in
                     if 0 \<le> k \<and> nat k < length activeTargets
                     then (let target = activeTargets ! nat k in
                           Inr (s\<lparr>rockets := rockets s @
                                   [\<lparr>r_id = nextId s,
                                     r_start = \<lparr>px = Fin startX, py = Fin 0\<rparr>,
                                     r_current = \<lparr>px = Fin startX, py = Fin 0\<rparr>,
                                     r_target = \<lparr>px = fst target, py = Fin (height cv - 20)\<rparr>,
                                     r_speed = Fin ((1 + real_of_int sc / 500) * 0.8),
                                     r_color = ''#ef4444''\<rparr>],
                                  nextId := nextId s + 1,
                                  lastSpawnTime := time f\<rparr>))
                     else Inl TypeError)
               else Inr (s\<lparr>lastSpawnTime := time f\<rparr>))
      else Inr s)"

subsection \<open>2. Update rockets\<close>

text \<open>The kinematics of one rocket: the first lines of the \<open>forEach\<close> body.\<close>

definition rocket_move :: "Rocket \<Rightarrow> Rocket" where
  "rocket_move rocket =
     (let dx = js_sub (px (r_target rocket)) (px (r_start rocket));
          dy = js_sub (py (r_target rocket)) (py (r_start rocket));
          dist = js_sqrt (js_add (js_mul dx dx) (js_mul dy dy));
          vx = js_mul (js_div dx dist) (r_speed rocket);
          vy = js_mul (js_div dy dist) (r_speed rocket)
      in rocket\<lparr>r_current :=
           (r_current rocket)\<lparr>px := js_add (px (r_current rocket)) vx,
                               py := js_add (py (r_current rocket)) vy\<rparr>\<rparr>)"

definition damage_cities :: "jsnum \<Rightarrow> City list \<Rightarrow> City list" where
  "damage_cities x cs =
     map (\<lambda>city. if c_active city \<and> js_lt (js_abs (js_sub (c_x city) x)) (Fin 30)
                  then city\<lparr>c_active := False\<rparr> else city) cs"

definition damage_turrets :: "jsnum \<Rightarrow> Turret list \<Rightarrow> Turret list" where
  "damage_turrets x ts =
     map (\<lambda>turret. if t_active turret \<and> js_lt (js_abs (js_sub (t_x turret) x)) (Fin 30)
                    then turret\<lparr>t_active := False\<rparr> else turret) ts"

text \<open>
  The body of the \<open>forEach\<close> for one rocket: it returns the rocket as mutated and the rest
  of the state (explosions, id counter, cities, turrets) as mutated.
\<close>

definition update_rocket :: "Rocket \<Rightarrow> World \<Rightarrow> Rocket \<times> World" where
  "update_rocket rocket0 s =
     (let rocket = rocket_move rocket0 in
      if js_ge (py (r_current rocket)) (py (r_target rocket))
      then (rocket\<lparr>r_id := - 1\<rparr>,
            s\<lparr>explosions := explosions s @
                 [\<lparr>e_id = nextId s, pos = r_current rocket, radius = Fin 0,
                   maxRadius = Fin 30, growing = True, e_done = False\<rparr>],
              nextId := nextId s + 1,
              cities := damage_cities (px (r_current rocket)) (cities s),
              turrets := damage_turrets (px (r_current rocket)) (turrets s)\<rparr>)
      else (rocket, s))"

fun update_rockets :: "Rocket list \<Rightarrow> World \<Rightarrow> Rocket list \<times> World" where
  "update_rockets [] s = ([], s)"
| "update_rockets (rocket # rs) s =
     (let (rocket', s') = update_rocket rocket s;
          (rs', s'') = update_rockets rs s'
      in (rocket' # rs', s''))"

definition rockets_pass :: "World \<Rightarrow> World" where
  "rockets_pass s =
     (let (rs, s') = update_rockets (rockets s) s
      in s'\<lparr>rockets := filter (\<lambda>r. r_id r \<noteq> - 1) rs\<rparr>)"

subsection \<open>3. Update missiles\<close>

definition missile_move :: "Missile \<Rightarrow> Missile" where
  "missile_move missile =
     (let dx = js_sub (px (m_target missile)) (px (m_start missile));
          dy = js_sub (py (m_target missile)) (py (m_start missile));
          dist = js_sqrt (js_add (js_mul dx dx) (js_mul dy dy));
          vx = js_mul (js_div dx dist) (m_speed missile);
          vy = js_mul (js_div dy dist) (m_speed missile)
      in missile\<lparr>m_current :=
           (m_current missile)\<lparr>px := js_add (px (m_current missile)) vx,
                                py := js_add (py (m_current missile)) vy\<rparr>\<rparr>)"

definition update_missile :: "Missile \<Rightarrow> World \<Rightarrow> Missile \<times> World" where
  "update_missile missile0 s =
     (let missile = missile_move missile0 in
      if js_lt (getDistance (m_current missile) (m_target missile)) (m_speed missile)
      then (missile\<lparr>m_id := - 1\<rparr>,
            s\<lparr>explosions := explosions s @
                 [\<lparr>e_id = nextId s, pos = m_target missile, radius = Fin 0,
                   maxRadius = Fin 80, growing = True, e_done = False\<rparr>],
              nextId := nextId s + 1\<rparr>)
      else (missile, s))"

fun update_missiles :: "Missile list \<Rightarrow> World \<Rightarrow> Missile list \<times> World" where
  "update_missiles [] s = ([], s)"
| "update_missiles (missile # ms) s =
     (let (missile', s') = update_missile missile s;
          (ms', s'') = update_missiles ms s'
      in (missile' # ms', s''))"

definition missiles_pass :: "World \<Rightarrow> World" where
  "missiles_pass s =
     (let (ms, s') = update_missiles (missiles s) s
      in s'\<lparr>missiles := filter (\<lambda>m. m_id m \<noteq> - 1) ms\<rparr>)"

subsection \<open>4. Update explosions\<close>

text \<open>The radius animation of one explosion: the first lines of the outer \<open>forEach\<close> body.\<close>

definition explosion_grow :: "Explosion \<Rightarrow> Explosion" where
  "explosion_grow exp0 =
     (if growing exp0
      then (let exp1 = exp0\<lparr>radius := js_add (radius exp0) (Fin 1.5)\<rparr> in
            if js_ge (radius exp1) (maxRadius exp1) then exp1\<lparr>growing := False\<rparr> else exp1)
      else (let exp1 = exp0\<lparr>radius := js_sub (radius exp0) (Fin 0.8)\<rparr> in
            if js_le (radius exp1) (Fin 0) then exp1\<lparr>e_done := True\<rparr> else exp1))"

text \<open>
  The inner \<open>forEach\<close>, over the rockets, for one explosion. It returns the rockets as
  mutated; the chain explosions are pushed on \<open>explosions\<close> of the state.
\<close>

fun collide_rockets :: "Explosion \<Rightarrow> Rocket list \<Rightarrow> World \<Rightarrow> Rocket list \<times> World" where
  "collide_rockets exp0 [] s = ([], s)"
| "collide_rockets exp0 (rocket # rs) s =
     (if js_lt (getDistance (pos exp0) (r_current rocket)) (radius exp0)
      then (let s' = s\<lparr>score := score s + ROCKET_SCORE,
                        explosions := explosions s @
                          [\<lparr>e_id = nextId s, pos = r_current rocket, radius = Fin 0,
                            maxRadius = Fin 30, growing = True, e_done = False\<rparr>],
                        nextId := nextId s + 1\<rparr>;
                (rs', s'') = collide_rockets exp0 rs s'
            in (rocket\<lparr>r_id := - 1\<rparr> # rs', s''))
      else (let (rs', s'') = collide_rockets exp0 rs s
            in (rocket # rs', s'')))"

text \<open>
  The outer \<open>forEach\<close>. \<open>Array.prototype.forEach\<close> fixes the range of indices before the
  first call, so it visits the explosions that the array held when the pass began and none
  of those pushed during the pass. The function runs over that initial list and returns
  its elements as mutated; the elements pushed meanwhile are at the end of \<open>explosions\<close>
  of the state returned, behind the (stale) initial ones.
\<close>

fun update_explosions :: "Explosion list \<Rightarrow> World \<Rightarrow> Explosion list \<times> World" where
  "update_explosions [] s = ([], s)"
| "update_explosions (exp0 # es) s =
     (let exp1 = explosion_grow exp0;
          (rs, s') = collide_rockets exp1 (rockets s) s;
          (es', s'') = update_explosions es (s'\<lparr>rockets := rs\<rparr>)
      in (exp1 # es', s''))"

definition explosions_pass :: "World \<Rightarrow> World" where
  "explosions_pass s =
     (let n = length (explosions s);
          (es, s') = update_explosions (explosions s) s
      in s'\<lparr>explosions := filter (\<lambda>e. \<not> e_done e) (es @ drop n (explosions s'))\<rparr>)"

subsection \<open>5. Check win/loss\<close>

text \<open>\<open>sc\<close> is the \<open>score\<close> that the callback closed over.\<close>

definition check_win_loss :: "int \<Rightarrow> World \<Rightarrow> World" where
  "check_win_loss sc s =
     (let s1 = (if sc \<ge> WIN_SCORE then s\<lparr>gameState := WON\<rparr> else s);
          s2 = (if list_all (\<lambda>t. \<not> t_active t) (turrets s1) then s1\<lparr>gameState := LOST\<rparr> else s1)
      in s2)"

subsection \<open>The whole tick\<close>

text \<open>
  \<open>update\<close> up to the drawing, which reads the state and changes nothing of it.
\<close>

definition update :: "Frame \<Rightarrow> World \<Rightarrow> error + World" where
  "update f s =
     (if gameState s \<noteq> PLAYING then Inr s
      else case canvas f of
        None \<Rightarrow> Inr s
      | Some cv \<Rightarrow>
          (case spawn_rockets f cv (score s) s of
             Inl e \<Rightarrow> Inl e
           | Inr s1 \<Rightarrow>
               Inr (check_win_loss (score s)
                      (explosions_pass (missiles_pass (rockets_pass s1))))))"

section \<open>Reachable states\<close>

text \<open>
  The states of the component: the one it is mounted with, and those that \<open>initGame\<close> (the
  start and restart buttons), a tick that returns, and a click on the canvas lead to.
\<close>

inductive reachable :: "World \<Rightarrow> bool" where
  mounted: "reachable initial_world"
| started: "reachable s \<Longrightarrow> reachable (initGame innerWidth now s)"
| ticked: "reachable s \<Longrightarrow> update f s = Inr s' \<Longrightarrow> reachable s'"
| clicked: "reachable s \<Longrightarrow> reachable (handleCanvasClick cv x y s)"

section \<open>Example states\<close>

text \<open>
  A frame in which the spawner stays quiet (no time has passed since the last spawn), on a
  canvas 1000 wide and 620 high: the ground is at \<open>y = 600\<close>.
\<close>

definition quiet_frame :: Frame where
  "quiet_frame = \<lparr>time = 0, canvas = Some \<lparr>width = 1000, height = 620\<rparr>,
                  random_start = 0, random_target = 0\<rparr>"


text \<open>
  The missile that a click on the apex of the middle turret fires (canvas 620 high, turret
  at \<open>x = 500\<close>): its target is its start.
\<close>

definition apex_missile :: Missile where
  "apex_missile =
     \<lparr>m_id = 0, m_start = \<lparr>px = Fin 500, py = Fin 570\<rparr>,
      m_current = \<lparr>px = Fin 500, py = Fin 570\<rparr>,
      m_target = \<lparr>px = Fin 500, py = Fin 570\<rparr>, m_speed = Fin 6, turretIndex = 1\<rparr>"

text \<open>
  Two missiles fired from the middle turret at \<open>(500, 302)\<close>: one 4 units short of the
  target, one just leaving the turret.
\<close>

definition volley :: World where
  "volley =
     \<lparr>rockets = [],
      missiles =
       [\<lparr>m_id = 4, m_start = \<lparr>px = Fin 500, py = Fin 570\<rparr>,
          m_current = \<lparr>px = Fin 500, py = Fin 306\<rparr>,
          m_target = \<lparr>px = Fin 500, py = Fin 302\<rparr>, m_speed = Fin 6, turretIndex = 1\<rparr>,
        \<lparr>m_id = 5, m_start = \<lparr>px = Fin 500, py = Fin 570\<rparr>,
          m_current = \<lparr>px = Fin 500, py = Fin 564\<rparr>,
          m_target = \<lparr>px = Fin 500, py = Fin 302\<rparr>, m_speed = Fin 6, turretIndex = 1\<rparr>],
      explosions = [], cities = [],
      turrets =
       [\<lparr>t_id = 1, t_x = Fin 100, ammo = 20, maxAmmo = 20, t_active = True\<rparr>,
        \<lparr>t_id = 5, t_x = Fin 500, ammo = 38, maxAmmo = 40, t_active = True\<rparr>,
        \<lparr>t_id = 9, t_x = Fin 900, ammo = 20, maxAmmo = 20, t_active = True\<rparr>],
      nextId = 6, lastSpawnTime = 0, score = 0, gameState = PLAYING\<rparr>"

text \<open>
  One rocket falling between two growing explosions (of two missiles aimed at \<open>(500, 299.8)\<close>
  and \<open>(500, 309.8)\<close>), both of which reach it in the next tick.
\<close>

definition crossfire :: World where
  "crossfire =
     \<lparr>rockets = [\<lparr>r_id = 3, r_start = \<lparr>px = Fin 500, py = Fin 0\<rparr>,
                  r_current = \<lparr>px = Fin 500, py = Fin 304\<rparr>,
                  r_target = \<lparr>px = Fin 500, py = Fin 600\<rparr>,
                  r_speed = Fin 0.8, r_color = ''#ef4444''\<rparr>],
      missiles = [],
      explosions =
       [\<lparr>e_id = 1, pos = \<lparr>px = Fin 500, py = Fin 299.8\<rparr>, radius = Fin 10.5,
          maxRadius = Fin 80, growing = True, e_done = False\<rparr>,
        \<lparr>e_id = 2, pos = \<lparr>px = Fin 500, py = Fin 309.8\<rparr>, radius = Fin 10.5,
          maxRadius = Fin 80, growing = True, e_done = False\<rparr>],
      cities = [],
      turrets =
       [\<lparr>t_id = 1, t_x = Fin 100, ammo = 20, maxAmmo = 20, t_active = True\<rparr>,
        \<lparr>t_id = 5, t_x = Fin 500, ammo = 38, maxAmmo = 40, t_active = True\<rparr>,
        \<lparr>t_id = 9, t_x = Fin 900, ammo = 20, maxAmmo = 20, t_active = True\<rparr>],
      nextId = 4, lastSpawnTime = 0, score = 0, gameState = PLAYING\<rparr>"

text \<open>The state of a chain explosion when it is pushed.\<close>

definition fresh_chain :: "Explosion \<Rightarrow> bool" where
  "fresh_chain e \<longleftrightarrow> radius e = Fin 0 \<and> maxRadius e = Fin 30 \<and> growing e \<and> \<not> e_done e"

text \<open>
  A rocket one and a half units above the ground over the middle turret, inside the
  growing explosion of a missile aimed at \<open>(500, 594.25)\<close>; and the state one tick later.
  Every number in it is a binary fraction, and so is every number the two ticks compute:
  the doubles of the program take the same values.
\<close>

definition near_ground :: World where
  "near_ground =
     \<lparr>rockets = [\<lparr>r_id = 3, r_start = \<lparr>px = Fin 500, py = Fin 0\<rparr>,
                  r_current = \<lparr>px = Fin 500, py = Fin 598.5\<rparr>,
                  r_target = \<lparr>px = Fin 500, py = Fin 600\<rparr>,
                  r_speed = Fin 0.75, r_color = ''#ef4444''\<rparr>],
      missiles = [],
      explosions =
       [\<lparr>e_id = 2, pos = \<lparr>px = Fin 500, py = Fin 594.25\<rparr>, radius = Fin 19.5,
          maxRadius = Fin 80, growing = True, e_done = False\<rparr>],
      cities = [],
      turrets =
       [\<lparr>t_id = 1, t_x = Fin 100, ammo = 20, maxAmmo = 20, t_active = True\<rparr>,
        \<lparr>t_id = 5, t_x = Fin 500, ammo = 39, maxAmmo = 40, t_active = True\<rparr>,
        \<lparr>t_id = 9, t_x = Fin 900, ammo = 20, maxAmmo = 20, t_active = True\<rparr>],
      nextId = 4, lastSpawnTime = 0, score = 0, gameState = PLAYING\<rparr>"

definition near_ground_next :: World where
  "near_ground_next =
     \<lparr>rockets = [\<lparr>r_id = - 1, r_start = \<lparr>px = Fin 500, py = Fin 0\<rparr>,
                  r_current = \<lparr>px = Fin 500, py = Fin 599.25\<rparr>,
                  r_target = \<lparr>px = Fin 500, py = Fin 600\<rparr>,
                  r_speed = Fin 0.75, r_color = ''#ef4444''\<rparr>],
      missiles = [],
      explosions =
       [\<lparr>e_id = 2, pos = \<lparr>px = Fin 500, py = Fin 594.25\<rparr>, radius = Fin 21,
          maxRadius = Fin 80, growing = True, e_done = False\<rparr>,
        \<lparr>e_id = 4, pos = \<lparr>px = Fin 500, py = Fin 599.25\<rparr>, radius = Fin 0,
          maxRadius = Fin 30, growing = True, e_done = False\<rparr>],
      cities = [],
      turrets =
       [\<lparr>t_id = 1, t_x = Fin 100, ammo = 20, maxAmmo = 20, t_active = True\<rparr>,
        \<lparr>t_id = 5, t_x = Fin 500, ammo = 39, maxAmmo = 40, t_active = True\<rparr>,
        \<lparr>t_id = 9, t_x = Fin 900, ammo = 20, maxAmmo = 20, t_active = True\<rparr>],
      nextId = 5, lastSpawnTime = 0, score = 20, gameState = PLAYING\<rparr>"

section \<open>The life of an explosion\<close>

text \<open>
  An explosion as the three places that push one create it: at \<open>p\<close>, with radius 0,
  growing, not done.
\<close>

definition new_explosion :: "int \<Rightarrow> Point \<Rightarrow> real \<Rightarrow> Explosion" where
  "new_explosion i p M =
     \<lparr>e_id = i, pos = p, radius = Fin 0, maxRadius = Fin M, growing = True, e_done = False\<rparr>"

text \<open>
  The number of explosion passes that animate an explosion, up to and with the pass that
  sets \<open>done\<close> (the filter at the end of that pass removes it); \<open>None\<close> when the explosion
  is not done within \<open>fuel\<close> passes.
\<close>

fun ticks_alive :: "nat \<Rightarrow> Explosion \<Rightarrow> nat option" where
  "ticks_alive 0 e = None"
| "ticks_alive (Suc fuel) e =
     (let e' = explosion_grow e in
      if e_done e' then Some 1 else map_option Suc (ticks_alive fuel e'))"

section \<open>Rockets and their rays\<close>

text \<open>The value of a finite number (0 for the others, which \<open>is_fin\<close> excludes).\<close>

fun num_of :: "jsnum \<Rightarrow> real" where
  "num_of (Fin a) = a"
| "num_of _ = 0"

definition fin_point :: "Point \<Rightarrow> bool" where
  "fin_point p \<longleftrightarrow> is_fin (px p) \<and> is_fin (py p)"

text \<open>
  The current position of a rocket lies on the ray from its start through its target:
  all coordinates are finite, the vector from start to current is parallel to the vector
  from start to target (their cross product is 0) and does not point backwards (their
  dot product is not negative).
\<close>

definition on_ray :: "Rocket \<Rightarrow> bool" where
  "on_ray r \<longleftrightarrow>
     fin_point (r_start r) \<and> fin_point (r_target r) \<and> fin_point (r_current r) \<and>
     (let sx = num_of (px (r_start r)); sy = num_of (py (r_start r));
          tx = num_of (px (r_target r)); ty = num_of (py (r_target r));
          cx = num_of (px (r_current r)); cy = num_of (py (r_current r))
      in (cx - sx) * (ty - sy) = (cy - sy) * (tx - sx) \<and>
         0 \<le> (cx - sx) * (tx - sx) + (cy - sy) * (ty - sy))"








section \<open>Properties: firing\<close>

lemma find_best_sound:
  "fst (find_best ts i x acc) = Some k \<Longrightarrow>
   fst acc = Some k \<or> (i \<le> k \<and> k < i + length ts \<and> t_active (ts ! (k - i)) \<and> 0 < ammo (ts ! (k - i)))"
proof (induction ts i x acc rule: find_best.induct)
  case (1 i x acc)
  then show ?case by simp
next
  case (2 t ts i x bestTurret minDist)
  then show ?case
    by (fastforce simp: Let_def nth_Cons' split: if_splits)
qed

lemma find_best_eligible:
  assumes "fst (find_best ts 0 x (None, PInf)) = Some k"
  shows "k < length ts \<and> t_active (ts ! k) \<and> 0 < ammo (ts ! k)"
  using find_best_sound [OF assms] by simp

lemma ammo_damage_turrets: "map ammo (damage_turrets x ts) = map ammo ts"
  by (induction ts) (simp_all add: damage_turrets_def)

lemma ammo_update_rocket: "map ammo (turrets (snd (update_rocket r s))) = map ammo (turrets s)"
  by (simp add: update_rocket_def Let_def ammo_damage_turrets)

lemma ammo_update_rockets: "map ammo (turrets (snd (update_rockets rs s))) = map ammo (turrets s)"
proof (induction rs arbitrary: s)
  case Nil
  then show ?case by simp
next
  case (Cons r rs)
  show ?case
    using Cons.IH [of "snd (update_rocket r s)"] ammo_update_rocket [of r s]
    by (simp add: split_beta Let_def)
qed

lemma turrets_update_missiles: "turrets (snd (update_missiles ms s)) = turrets s"
  by (induction ms arbitrary: s) (simp_all add: split_beta Let_def update_missile_def)

lemma turrets_collide_rockets: "turrets (snd (collide_rockets e rs s)) = turrets s"
  by (induction rs arbitrary: s) (simp_all add: split_beta Let_def)

lemma turrets_update_explosions: "turrets (snd (update_explosions es s)) = turrets s"
  by (induction es arbitrary: s) (simp_all add: split_beta Let_def turrets_collide_rockets)

lemma ammo_rockets_pass: "map ammo (turrets (rockets_pass s)) = map ammo (turrets s)"
  by (simp add: rockets_pass_def split_beta ammo_update_rockets)

lemma turrets_missiles_pass: "turrets (missiles_pass s) = turrets s"
  by (simp add: missiles_pass_def split_beta turrets_update_missiles)

lemma turrets_explosions_pass: "turrets (explosions_pass s) = turrets s"
  by (simp add: explosions_pass_def split_beta Let_def turrets_update_explosions)

lemma turrets_check_win_loss: "turrets (check_win_loss sc s) = turrets s"
  by (simp add: check_win_loss_def Let_def)

lemma turrets_spawn_rockets: "spawn_rockets f cv sc s = Inr s' \<Longrightarrow> turrets s' = turrets s"
  by (auto simp: spawn_rockets_def Let_def split: if_splits)

lemma ammo_update: "update f s = Inr s' \<Longrightarrow> map ammo (turrets s') = map ammo (turrets s)"
  by (auto simp: update_def turrets_check_win_loss turrets_explosions_pass turrets_missiles_pass
       ammo_rockets_pass dest!: turrets_spawn_rockets split: if_splits option.splits sum.splits)

lemma ammo_click:
  "handleCanvasClick cv x y s = s \<or>
   (\<exists>i < length (turrets s). t_active (turrets s ! i) \<and> 0 < ammo (turrets s ! i) \<and>
      map ammo (turrets (handleCanvasClick cv x y s)) =
        (map ammo (turrets s))[i := ammo (turrets s ! i) - 1])"
  by (auto simp: handleCanvasClick_def Let_def map_update split: option.splits
      dest!: find_best_eligible)

lemma ammo_initGame: "map ammo (turrets (initGame w now s)) = [20, 40, 20]"
  by (simp add: initGame_def TURRET_COUNT_def CITY_COUNT_def TURRET_AMMO_def upt_rec)

lemma ammo_nonneg_list: "(\<forall>t\<in>set ts. 0 \<le> ammo t) = (\<forall>a\<in>set (map ammo ts). 0 \<le> a)"
  by simp

lemma reachable_ammo: "reachable s \<Longrightarrow> \<forall>a\<in>set (map ammo (turrets s)). (0::int) \<le> a"
proof (induction rule: reachable.induct)
  case mounted
  then show ?case by (simp add: initial_world_def)
next
  case (started s innerWidth now)
  then show ?case by (simp only: ammo_initGame) simp
next
  case (ticked s f s')
  then show ?case by (simp only: ammo_update)
next
  case (clicked s cv x y)
  show ?case
    using ammo_click [of cv x y s]
  proof
    assume "handleCanvasClick cv x y s = s"
    with clicked.IH show ?thesis by simp
  next
    assume "\<exists>i<length (turrets s). t_active (turrets s ! i) \<and> 0 < ammo (turrets s ! i) \<and>
      map ammo (turrets (handleCanvasClick cv x y s)) =
        (map ammo (turrets s))[i := ammo (turrets s ! i) - 1]"
    then obtain i where i: "i < length (turrets s)" "0 < ammo (turrets s ! i)"
      "map ammo (turrets (handleCanvasClick cv x y s)) =
        (map ammo (turrets s))[i := ammo (turrets s ! i) - 1]" by blast
    have "\<forall>a\<in>set ((map ammo (turrets s))[i := ammo (turrets s ! i) - 1]). 0 \<le> a"
    proof
      fix a assume "a \<in> set ((map ammo (turrets s))[i := ammo (turrets s ! i) - 1])"
      then have "a = ammo (turrets s ! i) - 1 \<or> a \<in> set (map ammo (turrets s))"
        using set_update_subset_insert by fastforce
      with clicked.IH i(2) show "0 \<le> a" by auto
    qed
    with i(3) show ?thesis by simp
  qed
qed

text \<open>Two concrete states: a match just started in a window 1000 wide, and the same after a click.\<close>

lemma initGame_1000:
  "initGame 1000 0 initial_world =
    \<lparr>rockets = [], missiles = [], explosions = [],
     cities =
      [\<lparr>c_id = 2, c_x = Fin 200, c_active = True\<rparr>,
       \<lparr>c_id = 3, c_x = Fin 300, c_active = True\<rparr>,
       \<lparr>c_id = 4, c_x = Fin 400, c_active = True\<rparr>,
       \<lparr>c_id = 6, c_x = Fin 600, c_active = True\<rparr>,
       \<lparr>c_id = 7, c_x = Fin 700, c_active = True\<rparr>,
       \<lparr>c_id = 8, c_x = Fin 800, c_active = True\<rparr>],
     turrets =
      [\<lparr>t_id = 1, t_x = Fin 100, ammo = 20, maxAmmo = 20, t_active = True\<rparr>,
       \<lparr>t_id = 5, t_x = Fin 500, ammo = 40, maxAmmo = 40, t_active = True\<rparr>,
       \<lparr>t_id = 9, t_x = Fin 900, ammo = 20, maxAmmo = 20, t_active = True\<rparr>],
     nextId = 0, lastSpawnTime = 0, score = 0, gameState = PLAYING\<rparr>"
  by (simp add: initGame_def initial_world_def TURRET_COUNT_def CITY_COUNT_def TURRET_AMMO_def
      upt_rec)

lemma click_400_300:
  "handleCanvasClick (Some \<lparr>width = 1000, height = 600\<rparr>) (Fin 400) (Fin 300)
     (initGame 1000 0 initial_world) =
    \<lparr>rockets = [],
     missiles =
      [\<lparr>m_id = 0, m_start = \<lparr>px = Fin 500, py = Fin 550\<rparr>,
          m_current = \<lparr>px = Fin 500, py = Fin 550\<rparr>,
          m_target = \<lparr>px = Fin 400, py = Fin 300\<rparr>, m_speed = Fin 6,
          turretIndex = 1\<rparr>],
     explosions = [],
     cities =
      [\<lparr>c_id = 2, c_x = Fin 200, c_active = True\<rparr>,
       \<lparr>c_id = 3, c_x = Fin 300, c_active = True\<rparr>,
       \<lparr>c_id = 4, c_x = Fin 400, c_active = True\<rparr>,
       \<lparr>c_id = 6, c_x = Fin 600, c_active = True\<rparr>,
       \<lparr>c_id = 7, c_x = Fin 700, c_active = True\<rparr>,
       \<lparr>c_id = 8, c_x = Fin 800, c_active = True\<rparr>],
     turrets =
      [\<lparr>t_id = 1, t_x = Fin 100, ammo = 20, maxAmmo = 20, t_active = True\<rparr>,
       \<lparr>t_id = 5, t_x = Fin 500, ammo = 39, maxAmmo = 40, t_active = True\<rparr>,
       \<lparr>t_id = 9, t_x = Fin 900, ammo = 20, maxAmmo = 20, t_active = True\<rparr>],
     nextId = 1, lastSpawnTime = 0, score = 0, gameState = PLAYING\<rparr>"
  by (simp add: initGame_1000 handleCanvasClick_def js_sub_def)

text \<open>
  C8. In every reachable state no turret has negative ammunition. A click either leaves
  the state as it is, or takes exactly 1 from the ammunition of one turret, which is
  active and had ammunition left, and leaves the ammunition of every other turret as it
  is. A tick leaves the ammunition of every turret as it is. (The only other operation,
  \<open>initGame\<close>, replaces the turrets by three new ones with full ammunition.)
\<close>

theorem ammo_never_negative:
  assumes "reachable s"
  shows "(\<forall>t\<in>set (turrets s). 0 \<le> ammo t) \<and>
    (\<forall>cv x y. handleCanvasClick cv x y s = s \<or>
       (\<exists>i < length (turrets s). t_active (turrets s ! i) \<and> 0 < ammo (turrets s ! i) \<and>
          map ammo (turrets (handleCanvasClick cv x y s)) =
            (map ammo (turrets s))[i := ammo (turrets s ! i) - 1])) \<and>
    (\<forall>f s'. update f s = Inr s' \<longrightarrow> map ammo (turrets s') = map ammo (turrets s))"
  using reachable_ammo [OF assms] ammo_click [of _ _ _ s] ammo_update [of _ s]
  by (simp only: ammo_nonneg_list) blast

theorem ammo_never_negative_witness:
  "reachable (initGame 1000 0 initial_world) \<and>
   list_all (\<lambda>t. 0 \<le> ammo t) (turrets (initGame 1000 0 initial_world)) \<and>
   map ammo (turrets (handleCanvasClick (Some \<lparr>width = 1000, height = 600\<rparr>) (Fin 400) (Fin 300)
     (initGame 1000 0 initial_world))) = [20, 39, 20] \<and>
   update \<lparr>time = 100, canvas = Some \<lparr>width = 1000, height = 600\<rparr>,
           random_start = 0, random_target = 0\<rparr>
     (initGame 1000 0 initial_world) = Inr (initGame 1000 0 initial_world)"
proof -
  have r: "reachable (initGame 1000 0 initial_world)"
    by (rule reachable.started) (rule reachable.mounted)
  show ?thesis
    using r ammo_never_negative [OF r]
    apply (simp add: click_400_300 list_all_iff)
    apply (simp add: initGame_1000 update_def spawn_rockets_def rockets_pass_def
        missiles_pass_def explosions_pass_def check_win_loss_def WIN_SCORE_def)
    done
qed

lemma find_best_keeps: "fst acc \<noteq> None \<Longrightarrow> fst (find_best ts i x acc) \<noteq> None"
  by (induction ts i x acc rule: find_best.induct) (auto simp: Let_def)

lemma js_lt_abs_PInf: "is_fin a \<Longrightarrow> is_fin b \<Longrightarrow> js_lt (js_abs (js_sub a b)) PInf"
  by (cases a; cases b) (simp_all add: js_sub_def)

text \<open>When some turret is eligible (and the coordinates are finite), the search finds one.\<close>

lemma find_best_finds:
  assumes "t \<in> set ts" "t_active t" "0 < ammo t" "is_fin (t_x t)" "is_fin x"
  shows "fst (find_best ts i x (None, PInf)) \<noteq> None"
  using assms
proof (induction ts arbitrary: i)
  case Nil
  then show ?case by simp
next
  case (Cons u us)
  show ?case
  proof (cases "t_active u \<and> 0 < ammo u \<and> js_lt (js_abs (js_sub (t_x u) x)) PInf")
    case True
    then show ?thesis
      using find_best_keeps [of "(Some i, js_abs (js_sub (t_x u) x))" us "Suc i" x]
      by (simp add: Let_def)
  next
    case False
    with Cons.prems js_lt_abs_PInf [of "t_x t" x] have "t \<in> set us" by auto
    from Cons.IH [OF this Cons.prems(2-5)] False show ?thesis
      by (auto simp: Let_def)
  qed
qed

text \<open>
  C6, as amended. For every successful firing (the match is in progress, there is a
  canvas, and an eligible turret exists: active, with ammunition left), the click appends
  exactly one missile; it starts at \<open>(turret.x, canvas.height - 50)\<close> for an eligible turret
  (the apex of the turret as drawn, 30 above the ground line \<open>height - 20\<close>), targets the
  clicked point \<open>(x, y)\<close> and has speed 6.
\<close>

theorem fired_missile:
  assumes "gameState s = PLAYING"
    and "t \<in> set (turrets s)" "t_active t" "0 < ammo t" "is_fin (t_x t)" "is_fin x"
  shows "\<exists>i < length (turrets s). t_active (turrets s ! i) \<and> 0 < ammo (turrets s ! i) \<and>
     missiles (handleCanvasClick (Some cv) x y s) = missiles s @
       [\<lparr>m_id = nextId s,
         m_start = \<lparr>px = t_x (turrets s ! i), py = Fin (height cv - 50)\<rparr>,
         m_current = \<lparr>px = t_x (turrets s ! i), py = Fin (height cv - 50)\<rparr>,
         m_target = \<lparr>px = x, py = y\<rparr>,
         m_speed = Fin 6,
         turretIndex = int i\<rparr>]"
proof -
  from find_best_finds [OF assms(2-6)] obtain i
    where i: "fst (find_best (turrets s) 0 x (None, PInf)) = Some i" by blast
  from find_best_eligible [OF i] i assms(1) show ?thesis
    by (auto simp: handleCanvasClick_def Let_def)
qed

theorem fired_missile_witness:
  "gameState (initGame 1000 0 initial_world) = PLAYING \<and>
   \<lparr>t_id = 5, t_x = Fin 500, ammo = 40, maxAmmo = 40, t_active = True\<rparr>
     \<in> set (turrets (initGame 1000 0 initial_world)) \<and>
   missiles (handleCanvasClick (Some \<lparr>width = 1000, height = 600\<rparr>) (Fin 400) (Fin 300)
     (initGame 1000 0 initial_world)) =
       [\<lparr>m_id = 0, m_start = \<lparr>px = Fin 500, py = Fin 550\<rparr>,
          m_current = \<lparr>px = Fin 500, py = Fin 550\<rparr>,
          m_target = \<lparr>px = Fin 400, py = Fin 300\<rparr>, m_speed = Fin 6,
          turretIndex = 1\<rparr>]"
  using fired_missile [of "initGame 1000 0 initial_world"
      "\<lparr>t_id = 5, t_x = Fin 500, ammo = 40, maxAmmo = 40, t_active = True\<rparr>" "Fin 400"
      "\<lparr>width = 1000, height = 600\<rparr>" "Fin 300"]
  by (simp add: click_400_300) (simp add: initGame_1000)

text \<open>
  C6 as stated fails: in a canvas 600 high the ground is at 580, and the missile does not
  start at \<open>y = 580 - 50\<close>; it starts at 550.
\<close>

theorem missile_start_counterexample:
  "py (m_start (last (missiles (handleCanvasClick (Some \<lparr>width = 1000, height = 600\<rparr>)
      (Fin 400) (Fin 300) (initGame 1000 0 initial_world))))) \<noteq> Fin ((600 - 20) - 50)"
  by (simp add: click_400_300)

section \<open>Properties: win and loss\<close>

lemma sqrt_360000: "sqrt 360000 = 600"
  by (rule real_sqrt_unique) simp_all






section \<open>Properties: kinematics at distance zero\<close>

lemma apex_click:
  "missiles (handleCanvasClick (Some \<lparr>width = 1000, height = 620\<rparr>) (Fin 500) (Fin 570)
     (initGame 1000 0 initial_world)) = [apex_missile]"
  by (simp add: initGame_1000 handleCanvasClick_def js_sub_def apex_missile_def)

lemma js_div_self_sub:
  "js_div (js_sub a a)
     (js_sqrt (js_add (js_mul (js_sub a a) (js_sub a a)) (js_mul (js_sub b b) (js_sub b b)))) = NaN"
  by (cases a; cases b) (simp_all add: js_sub_def)

lemma js_div_self_sub2:
  "js_div (js_sub b b)
     (js_sqrt (js_add (js_mul (js_sub a a) (js_sub a a)) (js_mul (js_sub b b) (js_sub b b)))) = NaN"
  by (cases a; cases b) (simp_all add: js_sub_def)

lemma js_add_NaN: "js_add a NaN = NaN"
  by (cases a) simp_all

text \<open>
  C4, as amended. The kinematics update returns for every rocket and missile, but it has no
  guard: when start and target are the same point, the distance is 0, \<open>dx / dist\<close> and
  \<open>dy / dist\<close> are \<open>0 / 0 = NaN\<close>, and both coordinates of the current position become
  NaN, whatever the speed and the position were.
\<close>

theorem zero_distance_gives_NaN:
  "(r_start r = r_target r \<longrightarrow> r_current (rocket_move r) = \<lparr>px = NaN, py = NaN\<rparr>) \<and>
   (m_start m = m_target m \<longrightarrow> m_current (missile_move m) = \<lparr>px = NaN, py = NaN\<rparr>)"
  by (simp add: rocket_move_def missile_move_def Let_def js_div_self_sub js_div_self_sub2
      js_add_NaN)

theorem zero_distance_gives_NaN_witness:
  "m_start apex_missile = m_target apex_missile \<and>
   m_current (missile_move apex_missile) = \<lparr>px = NaN, py = NaN\<rparr> \<and>
   r_current (rocket_move \<lparr>r_id = 3, r_start = \<lparr>px = Fin 200, py = Fin 0\<rparr>,
                  r_current = \<lparr>px = Fin 200, py = Fin 0\<rparr>,
                  r_target = \<lparr>px = Fin 200, py = Fin 0\<rparr>,
                  r_speed = Fin 0.8, r_color = ''#ef4444''\<rparr>) = \<lparr>px = NaN, py = NaN\<rparr>"
  using zero_distance_gives_NaN [of "\<lparr>r_id = 3, r_start = \<lparr>px = Fin 200, py = Fin 0\<rparr>,
                  r_current = \<lparr>px = Fin 200, py = Fin 0\<rparr>,
                  r_target = \<lparr>px = Fin 200, py = Fin 0\<rparr>,
                  r_speed = Fin 0.8, r_color = ''#ef4444''\<rparr>" apex_missile]
  by (simp add: apex_missile_def)

text \<open>
  C4 as stated fails on \<open>apex_missile\<close>: its start is its target, and the update does not
  leave its position as it is.
\<close>

theorem zero_distance_counterexample:
  "m_start apex_missile = m_target apex_missile \<and>
   m_current (missile_move apex_missile) \<noteq> m_current apex_missile"
  by (simp add: apex_missile_def missile_move_def js_sub_def)

section \<open>Properties: missile impact\<close>

lemma m_id_missile_move: "m_id (missile_move m) = m_id m"
  by (simp add: missile_move_def Let_def)

lemma m_target_missile_move: "m_target (missile_move m) = m_target m"
  by (simp add: missile_move_def Let_def)

lemma m_speed_missile_move: "m_speed (missile_move m) = m_speed m"
  by (simp add: missile_move_def Let_def)

lemma fst_update_missiles:
  "fst (update_missiles ms s) =
     map (\<lambda>m. if js_lt (getDistance (m_current (missile_move m)) (m_target m)) (m_speed m)
               then (missile_move m)\<lparr>m_id := - 1\<rparr> else missile_move m) ms"
  by (induction ms arbitrary: s)
    (simp_all add: split_beta Let_def update_missile_def m_target_missile_move
      m_speed_missile_move)

lemma explosions_update_missiles:
  "map (\<lambda>e. (pos e, radius e, maxRadius e, growing e, e_done e))
       (explosions (snd (update_missiles ms s))) =
   map (\<lambda>e. (pos e, radius e, maxRadius e, growing e, e_done e)) (explosions s) @
   map (\<lambda>m. (m_target m, Fin 0, Fin 80, True, False))
       (filter (\<lambda>m. js_lt (getDistance (m_current m) (m_target m)) (m_speed m))
          (map missile_move ms))"
proof (induction ms arbitrary: s)
  case Nil
  then show ?case by simp
next
  case (Cons m ms)
  show ?case
    using Cons.IH [of "snd (update_missile m s)"]
    by (simp add: split_beta Let_def update_missile_def m_target_missile_move
        m_speed_missile_move)
qed

lemma explosions_missiles_pass:
  "explosions (missiles_pass s) = explosions (snd (update_missiles (missiles s) s))"
  by (simp add: missiles_pass_def split_beta)

lemma sqrt_less_iff_sq: "0 \<le> r \<Longrightarrow> sqrt a < r \<longleftrightarrow> a < r * r"
proof -
  assume r: "0 \<le> r"
  then have "sqrt (r * r) = r" by simp
  then have "sqrt a < r \<longleftrightarrow> sqrt a < sqrt (r * r)" by simp
  also have "\<dots> \<longleftrightarrow> a < r * r" by (rule real_sqrt_less_iff)
  finally show ?thesis .
qed

lemma sqrt_71824: "sqrt 71824 = 268"
  by (rule real_sqrt_unique) simp_all

text \<open>
  C9. In the missile pass every missile is moved; a moved missile impacts exactly when the
  distance from its position to its target is below its speed. The missiles left at the end
  of the pass are the moved missiles that do not impact, in their order, and for each
  impacting missile, in order, one explosion is appended: at the missile's target, with
  radius 0, \<open>maxRadius\<close> 80, growing. (Missiles carry ids from the counter, which starts at
  0, so none has the id \<open>-1\<close> that marks removal.)
\<close>

theorem missile_impact:
  assumes "\<forall>m\<in>set (missiles s). m_id m \<noteq> - 1"
  shows "missiles (missiles_pass s) =
      filter (\<lambda>m. \<not> js_lt (getDistance (m_current m) (m_target m)) (m_speed m))
        (map missile_move (missiles s)) \<and>
    map (\<lambda>e. (pos e, radius e, maxRadius e, growing e, e_done e)) (explosions (missiles_pass s)) =
      map (\<lambda>e. (pos e, radius e, maxRadius e, growing e, e_done e)) (explosions s) @
      map (\<lambda>m. (m_target m, Fin 0, Fin 80, True, False))
        (filter (\<lambda>m. js_lt (getDistance (m_current m) (m_target m)) (m_speed m))
          (map missile_move (missiles s)))"
proof -
  have "filter (\<lambda>m. m_id m \<noteq> - 1)
          (map (\<lambda>m. if js_lt (getDistance (m_current (missile_move m)) (m_target m)) (m_speed m)
               then (missile_move m)\<lparr>m_id := - 1\<rparr> else missile_move m) ms) =
        filter (\<lambda>m. \<not> js_lt (getDistance (m_current m) (m_target m)) (m_speed m))
          (map missile_move ms)" if "\<forall>m\<in>set ms. m_id m \<noteq> - 1" for ms
    using that
    by (induction ms) (simp_all add: m_id_missile_move m_target_missile_move m_speed_missile_move)
  with assms show ?thesis
    by (simp add: explosions_missiles_pass explosions_update_missiles)
       (simp add: missiles_pass_def split_beta fst_update_missiles)
qed

lemma volley_moved:
  "map missile_move (missiles volley) =
       [\<lparr>m_id = 4, m_start = \<lparr>px = Fin 500, py = Fin 570\<rparr>,
          m_current = \<lparr>px = Fin 500, py = Fin 300\<rparr>,
          m_target = \<lparr>px = Fin 500, py = Fin 302\<rparr>, m_speed = Fin 6, turretIndex = 1\<rparr>,
        \<lparr>m_id = 5, m_start = \<lparr>px = Fin 500, py = Fin 570\<rparr>,
          m_current = \<lparr>px = Fin 500, py = Fin 558\<rparr>,
          m_target = \<lparr>px = Fin 500, py = Fin 302\<rparr>, m_speed = Fin 6, turretIndex = 1\<rparr>]"
  by (simp add: volley_def missile_move_def js_sub_def sqrt_71824)

text \<open>
  On \<open>volley\<close> the first missile passes its target by 2 units (exact arrival is not needed),
  and its explosion is at the target \<open>(500, 302)\<close>, not at \<open>(500, 300)\<close>.
\<close>

theorem missile_impact_witness:
  "list_all (\<lambda>m. m_id m \<noteq> - 1) (missiles volley) \<and>
   missiles (missiles_pass volley) =
       [\<lparr>m_id = 5, m_start = \<lparr>px = Fin 500, py = Fin 570\<rparr>,
          m_current = \<lparr>px = Fin 500, py = Fin 558\<rparr>,
          m_target = \<lparr>px = Fin 500, py = Fin 302\<rparr>, m_speed = Fin 6, turretIndex = 1\<rparr>] \<and>
   map (\<lambda>e. (pos e, radius e, maxRadius e, growing e, e_done e))
     (explosions (missiles_pass volley)) =
       [(\<lparr>px = Fin 500, py = Fin 302\<rparr>, Fin 0, Fin 80, True, False)]"
  using missile_impact [of volley]
  apply (simp only: volley_moved)
  apply (simp add: getDistance_def js_sub_def js_sq_def sqrt_less_iff_sq)
  apply (simp add: volley_def)
  done

section \<open>Properties: the explosion pass\<close>

text \<open>The inner loop marks the rockets inside the radius, whatever their id is.\<close>

lemma fst_collide_rockets:
  "fst (collide_rockets e rs s) =
     map (\<lambda>r. if js_lt (getDistance (pos e) (r_current r)) (radius e)
               then r\<lparr>r_id := - 1\<rparr> else r) rs"
  by (induction rs arbitrary: s) (simp_all add: split_beta Let_def)

lemma score_collide_rockets:
  "score (snd (collide_rockets e rs s)) =
     score s +
     20 * int (length (filter (\<lambda>r. js_lt (getDistance (pos e) (r_current r)) (radius e)) rs))"
  by (induction rs arbitrary: s) (simp_all add: split_beta Let_def ROCKET_SCORE_def)

lemma explosions_collide_rockets:
  "\<exists>chain. explosions (snd (collide_rockets e rs s)) = explosions s @ chain \<and>
      list_all fresh_chain chain \<and>
      length chain =
        length (filter (\<lambda>r. js_lt (getDistance (pos e) (r_current r)) (radius e)) rs)"
proof (induction rs arbitrary: s)
  case Nil
  then show ?case by simp
next
  case (Cons r rs)
  show ?case
  proof (cases "js_lt (getDistance (pos e) (r_current r)) (radius e)")
    case True
    let ?c = "\<lparr>e_id = nextId s, pos = r_current r, radius = Fin 0,
                            maxRadius = Fin 30, growing = True, e_done = False\<rparr>"
    let ?s' = "s\<lparr>score := score s + ROCKET_SCORE, explosions := explosions s @ [?c],
                 nextId := nextId s + 1\<rparr>"
    from Cons.IH [of ?s'] obtain chain where
      "explosions (snd (collide_rockets e rs ?s')) = explosions ?s' @ chain"
      "list_all fresh_chain chain"
      "length chain =
         length (filter (\<lambda>r. js_lt (getDistance (pos e) (r_current r)) (radius e)) rs)"
      by blast
    moreover have "fresh_chain ?c" by (simp add: fresh_chain_def)
    ultimately show ?thesis
      using True by (intro exI [of _ "?c # chain"]) (simp add: split_beta Let_def)
  next
    case False
    with Cons.IH [of s] show ?thesis by (simp add: split_beta)
  qed
qed

lemma rockets_collide_rockets: "rockets (snd (collide_rockets e rs s)) = rockets s"
  by (induction rs arbitrary: s) (simp_all add: split_beta Let_def)

text \<open>The outer loop animates the explosions it was given, and only those.\<close>

lemma fst_update_explosions: "fst (update_explosions es s) = map explosion_grow es"
  by (induction es arbitrary: s) (simp_all add: split_beta Let_def)

lemma explosions_update_explosions:
  "\<exists>chain. explosions (snd (update_explosions es s)) = explosions s @ chain \<and>
      list_all fresh_chain chain \<and>
      score (snd (update_explosions es s)) = score s + 20 * int (length chain)"
proof (induction es arbitrary: s)
  case Nil
  then show ?case by simp
next
  case (Cons e es)
  let ?e = "explosion_grow e"
  let ?s1 = "snd (collide_rockets ?e (rockets s) s)"
  let ?s2 = "?s1\<lparr>rockets := fst (collide_rockets ?e (rockets s) s)\<rparr>"
  from explosions_collide_rockets [of ?e "rockets s" s] obtain c1 where c1:
    "explosions ?s1 = explosions s @ c1" "list_all fresh_chain c1"
    "length c1 =
       length (filter (\<lambda>r. js_lt (getDistance (pos ?e) (r_current r)) (radius ?e)) (rockets s))"
    by blast
  from Cons.IH [of ?s2] obtain c2 where c2:
    "explosions (snd (update_explosions es ?s2)) = explosions ?s2 @ c2" "list_all fresh_chain c2"
    "score (snd (update_explosions es ?s2)) = score ?s2 + 20 * int (length c2)"
    by blast
  have "score ?s2 = score s + 20 * int (length c1)"
    using score_collide_rockets [of ?e "rockets s" s] c1(3) by simp
  with c1 c2 show ?case
    by (intro exI [of _ "c1 @ c2"]) (simp add: split_beta Let_def)
qed

lemma rockets_update_explosions:
  "rockets (snd (update_explosions es s)) =
     map (\<lambda>r. if list_ex (\<lambda>e. js_lt (getDistance (pos e) (r_current r)) (radius e))
                    (map explosion_grow es)
               then r\<lparr>r_id := - 1\<rparr> else r) (rockets s)"
proof (induction es arbitrary: s)
  case Nil
  then show ?case by (simp add: map_idI)
next
  case (Cons e es)
  show ?case
    by (simp add: split_beta Let_def Cons.IH fst_collide_rockets)
qed

lemma fresh_chain_grow:
  "fresh_chain e \<Longrightarrow>
   radius (explosion_grow e) = Fin 1.5 \<and> growing (explosion_grow e) \<and> \<not> e_done (explosion_grow e)"
  by (simp add: fresh_chain_def explosion_grow_def js_ge_def)

lemma filter_fresh_chain: "list_all fresh_chain c \<Longrightarrow> filter (\<lambda>e. \<not> e_done e) c = c"
  by (induction c) (simp_all add: fresh_chain_def)

lemma sqrt_25: "sqrt 25 = 5"
  by (rule real_sqrt_unique) simp_all

text \<open>
  The tick of \<open>crossfire\<close>, pass by pass: the rocket moves to \<open>(500, 304.8)\<close>; either
  explosion grows to radius 12 and finds the rocket at distance 5.
\<close>

lemma crossfire_rockets_pass:
  "rockets_pass crossfire =
     crossfire\<lparr>rockets := [\<lparr>r_id = 3, r_start = \<lparr>px = Fin 500, py = Fin 0\<rparr>,
                  r_current = \<lparr>px = Fin 500, py = Fin 304.8\<rparr>,
                  r_target = \<lparr>px = Fin 500, py = Fin 600\<rparr>,
                  r_speed = Fin 0.8, r_color = ''#ef4444''\<rparr>]\<rparr>"
  by (simp add: crossfire_def rockets_pass_def update_rocket_def rocket_move_def js_sub_def
      js_ge_def sqrt_360000)

lemma crossfire_explosions_pass:
  "explosions_pass (crossfire\<lparr>rockets := [\<lparr>r_id = 3, r_start = \<lparr>px = Fin 500, py = Fin 0\<rparr>,
                  r_current = \<lparr>px = Fin 500, py = Fin 304.8\<rparr>,
                  r_target = \<lparr>px = Fin 500, py = Fin 600\<rparr>,
                  r_speed = Fin 0.8, r_color = ''#ef4444''\<rparr>]\<rparr>) =
     \<lparr>rockets = [\<lparr>r_id = - 1, r_start = \<lparr>px = Fin 500, py = Fin 0\<rparr>,
                  r_current = \<lparr>px = Fin 500, py = Fin 304.8\<rparr>,
                  r_target = \<lparr>px = Fin 500, py = Fin 600\<rparr>,
                  r_speed = Fin 0.8, r_color = ''#ef4444''\<rparr>],
      missiles = [],
      explosions =
       [\<lparr>e_id = 1, pos = \<lparr>px = Fin 500, py = Fin 299.8\<rparr>, radius = Fin 12,
          maxRadius = Fin 80, growing = True, e_done = False\<rparr>,
        \<lparr>e_id = 2, pos = \<lparr>px = Fin 500, py = Fin 309.8\<rparr>, radius = Fin 12,
          maxRadius = Fin 80, growing = True, e_done = False\<rparr>,
        \<lparr>e_id = 4, pos = \<lparr>px = Fin 500, py = Fin 304.8\<rparr>, radius = Fin 0,
          maxRadius = Fin 30, growing = True, e_done = False\<rparr>,
        \<lparr>e_id = 5, pos = \<lparr>px = Fin 500, py = Fin 304.8\<rparr>, radius = Fin 0,
          maxRadius = Fin 30, growing = True, e_done = False\<rparr>],
      cities = [],
      turrets =
       [\<lparr>t_id = 1, t_x = Fin 100, ammo = 20, maxAmmo = 20, t_active = True\<rparr>,
        \<lparr>t_id = 5, t_x = Fin 500, ammo = 38, maxAmmo = 40, t_active = True\<rparr>,
        \<lparr>t_id = 9, t_x = Fin 900, ammo = 20, maxAmmo = 20, t_active = True\<rparr>],
      nextId = 6, lastSpawnTime = 0, score = 40, gameState = PLAYING\<rparr>"
  by (simp add: crossfire_def explosions_pass_def explosion_grow_def js_ge_def getDistance_def
      js_sub_def js_sq_def sqrt_25 ROCKET_SCORE_def)

lemma crossfire_tick:
  "update quiet_frame crossfire =
     Inr \<lparr>rockets = [\<lparr>r_id = - 1, r_start = \<lparr>px = Fin 500, py = Fin 0\<rparr>,
                  r_current = \<lparr>px = Fin 500, py = Fin 304.8\<rparr>,
                  r_target = \<lparr>px = Fin 500, py = Fin 600\<rparr>,
                  r_speed = Fin 0.8, r_color = ''#ef4444''\<rparr>],
      missiles = [],
      explosions =
       [\<lparr>e_id = 1, pos = \<lparr>px = Fin 500, py = Fin 299.8\<rparr>, radius = Fin 12,
          maxRadius = Fin 80, growing = True, e_done = False\<rparr>,
        \<lparr>e_id = 2, pos = \<lparr>px = Fin 500, py = Fin 309.8\<rparr>, radius = Fin 12,
          maxRadius = Fin 80, growing = True, e_done = False\<rparr>,
        \<lparr>e_id = 4, pos = \<lparr>px = Fin 500, py = Fin 304.8\<rparr>, radius = Fin 0,
          maxRadius = Fin 30, growing = True, e_done = False\<rparr>,
        \<lparr>e_id = 5, pos = \<lparr>px = Fin 500, py = Fin 304.8\<rparr>, radius = Fin 0,
          maxRadius = Fin 30, growing = True, e_done = False\<rparr>],
      cities = [],
      turrets =
       [\<lparr>t_id = 1, t_x = Fin 100, ammo = 20, maxAmmo = 20, t_active = True\<rparr>,
        \<lparr>t_id = 5, t_x = Fin 500, ammo = 38, maxAmmo = 40, t_active = True\<rparr>,
        \<lparr>t_id = 9, t_x = Fin 900, ammo = 20, maxAmmo = 20, t_active = True\<rparr>],
      nextId = 6, lastSpawnTime = 0, score = 40, gameState = PLAYING\<rparr>"
  by (simp add: update_def quiet_frame_def crossfire_def spawn_rockets_def rockets_pass_def
      update_rocket_def rocket_move_def js_sub_def js_ge_def sqrt_360000 missiles_pass_def
      explosions_pass_def explosion_grow_def getDistance_def js_sq_def sqrt_25 ROCKET_SCORE_def
      check_win_loss_def WIN_SCORE_def Let_def)

text \<open>
  C10. The explosion pass animates exactly the explosions that the collection held when
  the pass began; what it leaves is those of them that are not done, followed by the chain
  explosions pushed during the pass, each still as it was pushed (radius 0, growing). The
  rockets marked are those inside the radius of an explosion present at the beginning,
  after its growth step: a chain explosion marks none in the pass that creates it. The
  growth step that a later pass applies takes each chain explosion to radius 1.5.
\<close>

theorem chain_explosions_wait:
  "\<exists>chain.
     explosions (explosions_pass s) =
       filter (\<lambda>e. \<not> e_done e) (map explosion_grow (explosions s)) @ chain \<and>
     list_all fresh_chain chain \<and>
     list_all (\<lambda>e. radius (explosion_grow e) = Fin 1.5) chain \<and>
     score (explosions_pass s) = score s + 20 * int (length chain) \<and>
     rockets (explosions_pass s) =
       map (\<lambda>r. if list_ex (\<lambda>e. js_lt (getDistance (pos e) (r_current r)) (radius e))
                      (map explosion_grow (explosions s))
                 then r\<lparr>r_id := - 1\<rparr> else r) (rockets s)"
proof -
  from explosions_update_explosions [of "explosions s" s] obtain chain where c:
    "explosions (snd (update_explosions (explosions s) s)) = explosions s @ chain"
    "list_all fresh_chain chain"
    "score (snd (update_explosions (explosions s) s)) = score s + 20 * int (length chain)"
    by blast
  have "list_all (\<lambda>e. radius (explosion_grow e) = Fin 1.5) chain"
    using c(2) by (simp add: list_all_iff fresh_chain_grow)
  with c show ?thesis
    by (intro exI [of _ chain])
      (simp add: explosions_pass_def split_beta Let_def fst_update_explosions
        filter_fresh_chain rockets_update_explosions)
qed

theorem chain_explosions_wait_witness:
  "map radius (explosions (explosions_pass (rockets_pass crossfire))) =
     [Fin 12, Fin 12, Fin 0, Fin 0] \<and>
   map r_id (rockets (explosions_pass (rockets_pass crossfire))) = [- 1] \<and>
   score (explosions_pass (rockets_pass crossfire)) = 40"
  using chain_explosions_wait [of "rockets_pass crossfire"]
  apply (simp only: crossfire_rockets_pass crossfire_explosions_pass)
  apply (simp add: explosions_pass_def explosion_grow_def js_ge_def getDistance_def
      js_sub_def js_sq_def sqrt_25 ROCKET_SCORE_def)
  done

section \<open>Properties: score and dead rockets\<close>

text \<open>
  C1, evaluated on \<open>crossfire\<close>. One rocket, inside the radius of two explosions in the
  same tick: the tick returns, the score goes from 0 to 40, two chain explosions are
  pushed for the one rocket, and the rocket, marked with id \<open>-1\<close>, is still in the
  collection.
\<close>

theorem rocket_counted_twice:
  "length (rockets crossfire) = 1 \<and> score crossfire = 0 \<and>
   \<not> isl (update quiet_frame crossfire) \<and>
   score (projr (update quiet_frame crossfire)) = 40 \<and>
   map r_id (rockets (projr (update quiet_frame crossfire))) = [- 1] \<and>
   map maxRadius (explosions (projr (update quiet_frame crossfire))) = [Fin 80, Fin 80, Fin 30, Fin 30]"
  by (simp add: crossfire_tick) (simp add: crossfire_def)

text \<open>The two ticks of \<open>near_ground\<close>.\<close>

lemma near_ground_tick: "update quiet_frame near_ground = Inr near_ground_next"
  by (simp add: update_def quiet_frame_def near_ground_def near_ground_next_def spawn_rockets_def
      rockets_pass_def
      update_rocket_def rocket_move_def js_sub_def js_ge_def sqrt_360000 missiles_pass_def
      explosions_pass_def explosion_grow_def getDistance_def js_sq_def sqrt_25 ROCKET_SCORE_def
      check_win_loss_def WIN_SCORE_def Let_def)

lemma near_ground_next_tick:
  "update quiet_frame near_ground_next =
    Inr \<lparr>rockets = [],
      missiles = [],
      explosions =
       [\<lparr>e_id = 2, pos = \<lparr>px = Fin 500, py = Fin 594.25\<rparr>, radius = Fin 22.5,
          maxRadius = Fin 80, growing = True, e_done = False\<rparr>,
        \<lparr>e_id = 4, pos = \<lparr>px = Fin 500, py = Fin 599.25\<rparr>, radius = Fin 1.5,
          maxRadius = Fin 30, growing = True, e_done = False\<rparr>,
        \<lparr>e_id = 5, pos = \<lparr>px = Fin 500, py = Fin 600\<rparr>, radius = Fin 1.5,
          maxRadius = Fin 30, growing = True, e_done = False\<rparr>],
      cities = [],
      turrets =
       [\<lparr>t_id = 1, t_x = Fin 100, ammo = 20, maxAmmo = 20, t_active = True\<rparr>,
        \<lparr>t_id = 5, t_x = Fin 500, ammo = 39, maxAmmo = 40, t_active = False\<rparr>,
        \<lparr>t_id = 9, t_x = Fin 900, ammo = 20, maxAmmo = 20, t_active = True\<rparr>],
      nextId = 6, lastSpawnTime = 0, score = 20, gameState = PLAYING\<rparr>"
  by (simp add: update_def quiet_frame_def near_ground_next_def spawn_rockets_def
      rockets_pass_def damage_cities_def damage_turrets_def
      update_rocket_def rocket_move_def js_sub_def js_ge_def sqrt_360000 missiles_pass_def
      explosions_pass_def explosion_grow_def getDistance_def js_sq_def sqrt_25 ROCKET_SCORE_def
      check_win_loss_def WIN_SCORE_def Let_def)

text \<open>
  C3, evaluated on \<open>near_ground\<close>. The explosion destroys the rocket in the first tick
  (20 points, id \<open>-1\<close>), and the rocket is still in the collection when that tick ends:
  the explosion pass filters the explosions, not the rockets. In the second tick the
  rocket pass moves the dead rocket to \<open>y = 600\<close>, finds it on the ground and takes the
  middle turret,
  before the filter of that pass removes it.
\<close>

theorem dead_rocket_survives:
  "update quiet_frame near_ground = Inr near_ground_next \<and>
   map r_id (rockets near_ground_next) = [- 1] \<and>
   map t_active (turrets near_ground_next) = [True, True, True] \<and>
   \<not> isl (update quiet_frame near_ground_next) \<and>
   map t_active (turrets (projr (update quiet_frame near_ground_next))) = [True, False, True]"
  by (simp add: near_ground_tick near_ground_next_tick) (simp add: near_ground_next_def)

section \<open>Properties: the life of an explosion\<close>

text \<open>One step of either phase, and any number of them while the phase lasts.\<close>

lemma grow_step:
  "explosion_grow
     \<lparr>e_id = i, pos = p, radius = Fin r, maxRadius = Fin M, growing = True, e_done = False\<rparr> =
   \<lparr>e_id = i, pos = p, radius = Fin (r + 1.5), maxRadius = Fin M,
    growing = (r + 1.5 < M), e_done = False\<rparr>"
  by (auto simp: explosion_grow_def js_ge_def Let_def)

lemma shrink_step:
  "explosion_grow
     \<lparr>e_id = i, pos = p, radius = Fin r, maxRadius = Fin M, growing = False, e_done = False\<rparr> =
   \<lparr>e_id = i, pos = p, radius = Fin (r - 0.8), maxRadius = Fin M,
    growing = False, e_done = (r - 0.8 \<le> 0)\<rparr>"
  by (auto simp: explosion_grow_def js_sub_def Let_def)

lemma grow_phase:
  "0 < M \<Longrightarrow> 1.5 * real k < M + 1.5 \<Longrightarrow>
   (explosion_grow ^^ k) (new_explosion i p M) =
     \<lparr>e_id = i, pos = p, radius = Fin (1.5 * real k), maxRadius = Fin M,
      growing = (1.5 * real k < M), e_done = False\<rparr>"
proof (induction k)
  case 0
  then show ?case by (simp add: new_explosion_def)
next
  case (Suc k)
  then have k: "1.5 * real k < M" by simp
  then have "(explosion_grow ^^ k) (new_explosion i p M) =
     \<lparr>e_id = i, pos = p, radius = Fin (1.5 * real k), maxRadius = Fin M,
      growing = True, e_done = False\<rparr>"
    using Suc.IH Suc.prems(1) by simp
  then show ?case
    by (auto simp: grow_step algebra_simps)
qed

lemma shrink_phase:
  "0 < R \<Longrightarrow> 0.8 * real j < R + 0.8 \<Longrightarrow>
   (explosion_grow ^^ j)
      \<lparr>e_id = i, pos = p, radius = Fin R, maxRadius = Fin M, growing = False, e_done = False\<rparr> =
     \<lparr>e_id = i, pos = p, radius = Fin (R - 0.8 * real j), maxRadius = Fin M,
      growing = False, e_done = (R - 0.8 * real j \<le> 0)\<rparr>"
proof (induction j)
  case 0
  then show ?case by simp
next
  case (Suc j)
  then have j: "0.8 * real j < R" by simp
  then have "(explosion_grow ^^ j)
      \<lparr>e_id = i, pos = p, radius = Fin R, maxRadius = Fin M, growing = False, e_done = False\<rparr> =
     \<lparr>e_id = i, pos = p, radius = Fin (R - 0.8 * real j), maxRadius = Fin M,
      growing = False, e_done = False\<rparr>"
    using Suc.IH Suc.prems(1) by simp
  then show ?case
    by (auto simp: shrink_step algebra_simps)
qed

lemma ticks_alive_first_done:
  "0 < n \<Longrightarrow> n \<le> fuel \<Longrightarrow> e_done ((explosion_grow ^^ n) e) \<Longrightarrow>
   (\<And>k. 0 < k \<Longrightarrow> k < n \<Longrightarrow> \<not> e_done ((explosion_grow ^^ k) e)) \<Longrightarrow>
   ticks_alive fuel e = Some n"
proof (induction fuel arbitrary: n e)
  case 0
  then show ?case by simp
next
  case (Suc fuel)
  show ?case
  proof (cases "n = 1")
    case True
    with Suc.prems(3) show ?thesis by simp
  next
    case False
    with Suc.prems(1) obtain m where m: "n = Suc m" "0 < m" by (cases n) auto
    have nd: "\<not> e_done (explosion_grow e)"
      using Suc.prems(4) [of 1] m by simp
    have "ticks_alive fuel (explosion_grow e) = Some m"
    proof (rule Suc.IH)
      show "0 < m" by (rule m(2))
      show "m \<le> fuel" using Suc.prems(2) m by simp
      show "e_done ((explosion_grow ^^ m) (explosion_grow e))"
        using Suc.prems(3) m by (simp add: funpow_swap1)
      show "\<not> e_done ((explosion_grow ^^ k) (explosion_grow e))" if "0 < k" "k < m" for k
        using Suc.prems(4) [of "Suc k"] that m by (simp add: funpow_swap1)
    qed
    with nd m show ?thesis by simp
  qed
qed


lemma nat_ceiling_bounds:
  fixes x :: real
  assumes "0 < x"
  shows "x \<le> real (nat \<lceil>x\<rceil>)" and "real (nat \<lceil>x\<rceil>) < x + 1" and "0 < nat \<lceil>x\<rceil>"
    and "\<And>j. j < nat \<lceil>x\<rceil> \<Longrightarrow> real j < x"
proof -
  from assms have c: "0 < \<lceil>x\<rceil>" by simp
  then have r: "real (nat \<lceil>x\<rceil>) = of_int \<lceil>x\<rceil>" by simp
  show "x \<le> real (nat \<lceil>x\<rceil>)" unfolding r by (rule le_of_int_ceiling)
  show "real (nat \<lceil>x\<rceil>) < x + 1" unfolding r by (rule ceiling_correct [THEN conjunct1, THEN iffD1 [OF diff_less_eq]])
  show "0 < nat \<lceil>x\<rceil>" using c by simp
  show "real j < x" if "j < nat \<lceil>x\<rceil>" for j
  proof -
    from that c have "int j < \<lceil>x\<rceil>" by simp
    then have "of_int (int j) < x" by (simp only: less_ceiling_iff)
    then show ?thesis by simp
  qed
qed


lemma growth_trace_gen:
  assumes "0 < M" and "M \<le> 1.5 * real g" and "1.5 * real g < M + 1.5" and "k \<le> g"
  shows "(explosion_grow ^^ k) (new_explosion i p M) =
     \<lparr>e_id = i, pos = p, radius = Fin (1.5 * real k), maxRadius = Fin M,
      growing = (k < g), e_done = False\<rparr>"
proof -
  from assms(4) have kg: "real k \<le> real g" by (simp only: of_nat_le_iff)
  with assms(3) have "1.5 * real k < M + 1.5" by simp
  from grow_phase [OF assms(1) this]
  have e: "(explosion_grow ^^ k) (new_explosion i p M) =
     \<lparr>e_id = i, pos = p, radius = Fin (1.5 * real k), maxRadius = Fin M,
      growing = (1.5 * real k < M), e_done = False\<rparr>" .
  have "(1.5 * real k < M) = (k < g)"
  proof (cases "k < g")
    case True
    then have "real k + 1 \<le> real g" by (simp only: of_nat_le_iff [symmetric, where ?'a = real] of_nat_Suc [symmetric] Suc_le_eq)
    with assms(3) True show ?thesis by simp
  next
    case False
    with assms(4) have "k = g" by simp
    with assms(2) False show ?thesis by simp
  qed
  with e show ?thesis by simp
qed

lemma shrink_trace_gen:
  assumes "0 < R" and "R \<le> 0.8 * real h" and "0.8 * real h < R + 0.8" and "j \<le> h"
  shows "(explosion_grow ^^ j)
      \<lparr>e_id = i, pos = p, radius = Fin R, maxRadius = Fin M, growing = False, e_done = False\<rparr> =
     \<lparr>e_id = i, pos = p, radius = Fin (R - 0.8 * real j), maxRadius = Fin M,
      growing = False, e_done = (j = h)\<rparr>"
proof -
  from assms(4) have "real j \<le> real h" by (simp only: of_nat_le_iff)
  with assms(3) have "0.8 * real j < R + 0.8" by simp
  from shrink_phase [OF assms(1) this]
  have e: "(explosion_grow ^^ j)
      \<lparr>e_id = i, pos = p, radius = Fin R, maxRadius = Fin M, growing = False, e_done = False\<rparr> =
     \<lparr>e_id = i, pos = p, radius = Fin (R - 0.8 * real j), maxRadius = Fin M,
      growing = False, e_done = (R - 0.8 * real j \<le> 0)\<rparr>" .
  have "(R - 0.8 * real j \<le> 0) = (j = h)"
  proof (cases "j < h")
    case True
    then have "real j + 1 \<le> real h" by (simp only: of_nat_le_iff [symmetric, where ?'a = real] of_nat_Suc [symmetric] Suc_le_eq)
    with assms(3) True show ?thesis by simp
  next
    case False
    with assms(4) have "j = h" by simp
    with assms(2) show ?thesis by simp
  qed
  with e show ?thesis by simp
qed

lemma explosion_growth_trace:
  assumes "0 < M" and "k \<le> nat \<lceil>M / 1.5\<rceil>"
  shows "(explosion_grow ^^ k) (new_explosion i p M) =
     \<lparr>e_id = i, pos = p, radius = Fin (1.5 * real k), maxRadius = Fin M,
      growing = (k < nat \<lceil>M / 1.5\<rceil>), e_done = False\<rparr>"
proof -
  define g where "g = nat \<lceil>M / 1.5\<rceil>"
  from assms(1) have x: "0 < M / 1.5" by simp
  from nat_ceiling_bounds(1,2) [OF x]
  have "M / 1.5 \<le> real g" "real g < M / 1.5 + 1" by (simp_all only: g_def)
  then have "M \<le> 1.5 * real g" "1.5 * real g < M + 1.5" by (simp_all add: field_simps)
  from growth_trace_gen [OF assms(1) this, of k i p] assms(2)
  show ?thesis by (simp only: g_def)
qed

lemma explosion_shrink_trace:
  assumes "0 < M" and "j \<le> nat \<lceil>1.5 * real (nat \<lceil>M / 1.5\<rceil>) / 0.8\<rceil>"
  shows "(explosion_grow ^^ (nat \<lceil>M / 1.5\<rceil> + j)) (new_explosion i p M) =
     \<lparr>e_id = i, pos = p, radius = Fin (1.5 * real (nat \<lceil>M / 1.5\<rceil>) - 0.8 * real j),
      maxRadius = Fin M, growing = False,
      e_done = (j = nat \<lceil>1.5 * real (nat \<lceil>M / 1.5\<rceil>) / 0.8\<rceil>)\<rparr>"
proof -
  define g where "g = nat \<lceil>M / 1.5\<rceil>"
  define R where "R = 1.5 * real g"
  define h where "h = nat \<lceil>R / 0.8\<rceil>"
  from assms(1) have x: "0 < M / 1.5" by simp
  from nat_ceiling_bounds(3) [OF x] have "0 < g" by (simp only: g_def)
  then have R: "0 < R" by (simp add: R_def)
  then have y: "0 < R / 0.8" by simp
  from nat_ceiling_bounds(1,2) [OF y]
  have "R / 0.8 \<le> real h" "real h < R / 0.8 + 1" by (simp_all only: h_def)
  then have hb: "R \<le> 0.8 * real h" "0.8 * real h < R + 0.8" by (simp_all add: field_simps)
  have jh: "j \<le> h" using assms(2) by (simp only: h_def R_def g_def)
  have gg: "(explosion_grow ^^ g) (new_explosion i p M) =
     \<lparr>e_id = i, pos = p, radius = Fin R, maxRadius = Fin M, growing = False, e_done = False\<rparr>"
    using explosion_growth_trace [OF assms(1), of g i p] by (simp add: g_def R_def)
  have "(explosion_grow ^^ (g + j)) (new_explosion i p M) =
        (explosion_grow ^^ j) ((explosion_grow ^^ g) (new_explosion i p M))"
    by (simp only: add.commute [of g j] funpow_add o_apply)
  also have "\<dots> = \<lparr>e_id = i, pos = p, radius = Fin (R - 0.8 * real j), maxRadius = Fin M,
      growing = False, e_done = (j = h)\<rparr>"
    by (simp only: gg shrink_trace_gen [OF R hb jh])
  finally show ?thesis by (simp only: h_def R_def g_def)
qed

lemma ticks_alive_new_explosion:
  assumes "0 < M"
    and "nat \<lceil>M / 1.5\<rceil> + nat \<lceil>1.5 * real (nat \<lceil>M / 1.5\<rceil>) / 0.8\<rceil> \<le> fuel"
  shows "ticks_alive fuel (new_explosion i p M) =
     Some (nat \<lceil>M / 1.5\<rceil> + nat \<lceil>1.5 * real (nat \<lceil>M / 1.5\<rceil>) / 0.8\<rceil>)"
proof (rule ticks_alive_first_done)
  let ?g = "nat \<lceil>M / 1.5\<rceil>"
  let ?h = "nat \<lceil>1.5 * real ?g / 0.8\<rceil>"
  from assms(1) have x: "0 < M / 1.5" by simp
  from nat_ceiling_bounds(3) [OF x] show "0 < ?g + ?h" by simp
  show "?g + ?h \<le> fuel" by (rule assms(2))
  show "e_done ((explosion_grow ^^ (?g + ?h)) (new_explosion i p M))"
    using explosion_shrink_trace [OF assms(1), of ?h i p] by simp
  show "\<not> e_done ((explosion_grow ^^ k) (new_explosion i p M))" if "0 < k" "k < ?g + ?h" for k
  proof (cases "k \<le> ?g")
    case True
    from explosion_growth_trace [OF assms(1) True, of i p] show ?thesis by simp
  next
    case False
    then obtain j where j: "k = ?g + j" by (metis le_add_diff_inverse nat_le_linear)
    with that have "j < ?h" by simp
    then have "j \<le> ?h" "j \<noteq> ?h" by simp_all
    from explosion_shrink_trace [OF assms(1) this(1), of i p] this(2) j show ?thesis by simp
  qed
qed

text \<open>
  C5, as amended. An explosion pushed with a positive \<open>maxRadius\<close> \<open>M\<close> starts at radius
  0. With \<open>g = \<lceil>M / 1.5\<rceil>\<close>, its radius after \<open>k \<le> g\<close> passes is \<open>1.5 k\<close>, and it is
  growing until the \<open>g\<close>-th pass: the radius rises by 1.5 per pass until it is at least
  \<open>M\<close>, and peaks at \<open>1.5 g\<close>, which can lie above \<open>M\<close> (81 for \<open>M = 80\<close>). With
  \<open>h = \<lceil>1.5 g / 0.8\<rceil>\<close>, its radius \<open>j \<le> h\<close> passes later is \<open>1.5 g - 0.8 j\<close>, and it
  is done at the \<open>h\<close>-th of them and not before. It is animated in \<open>g + h\<close> passes, the last
  of which removes it: 58 for \<open>M = 30\<close> and 156 for \<open>M = 80\<close>.
\<close>

theorem explosion_lifetime:
  assumes "0 < M"
  shows "let g = nat \<lceil>M / 1.5\<rceil>; h = nat \<lceil>1.5 * real g / 0.8\<rceil>; e0 = new_explosion i p M in
    (\<forall>k \<le> g. (explosion_grow ^^ k) e0 =
        \<lparr>e_id = i, pos = p, radius = Fin (1.5 * real k), maxRadius = Fin M,
         growing = (k < g), e_done = False\<rparr>) \<and>
    (\<forall>j \<le> h. (explosion_grow ^^ (g + j)) e0 =
        \<lparr>e_id = i, pos = p, radius = Fin (1.5 * real g - 0.8 * real j), maxRadius = Fin M,
         growing = False, e_done = (j = h)\<rparr>) \<and>
    (\<forall>fuel \<ge> g + h. ticks_alive fuel e0 = Some (g + h))"
  unfolding Let_def
  using explosion_growth_trace [OF assms] explosion_shrink_trace [OF assms]
    ticks_alive_new_explosion [OF assms]
  by blast

lemma ceil_30: "nat \<lceil>(30::real) / 1.5\<rceil> = 20" "nat \<lceil>1.5 * real 20 / 0.8\<rceil> = 38"
  by simp_all

lemma ceil_80: "nat \<lceil>(80::real) / 1.5\<rceil> = 54" "nat \<lceil>1.5 * real 54 / 0.8\<rceil> = 102"
  "nat \<lceil>(80::real) / 0.8\<rceil> = 100"
  by simp_all

theorem explosion_lifetime_witness:
  "(0::real) < 30 \<and> (0::real) < 80 \<and>
   ticks_alive 58 (new_explosion 0 \<lparr>px = Fin 400, py = Fin 300\<rparr> 30) = Some 58 \<and>
   ticks_alive 156 (new_explosion 0 \<lparr>px = Fin 400, py = Fin 300\<rparr> 80) = Some 156 \<and>
   radius ((explosion_grow ^^ 54) (new_explosion 0 \<lparr>px = Fin 400, py = Fin 300\<rparr> 80)) = Fin 81"
  using explosion_lifetime [of 30 0 "\<lparr>px = Fin 400, py = Fin 300\<rparr>"]
    explosion_lifetime [of 80 0 "\<lparr>px = Fin 400, py = Fin 300\<rparr>"]
  by (simp only: Let_def ceil_30 ceil_80) simp

text \<open>
  C5 as stated fails for \<open>M = 80\<close>: the explosion of a missile is animated in 156 passes,
  not in \<open>\<lceil>80 / 1.5\<rceil> + \<lceil>80 / 0.8\<rceil> = 154\<close>.
\<close>

theorem explosion_lifetime_counterexample:
  "ticks_alive 200 (new_explosion 0 \<lparr>px = Fin 400, py = Fin 300\<rparr> 80) \<noteq>
     Some (nat \<lceil>(80::real) / 1.5\<rceil> + nat \<lceil>(80::real) / 0.8\<rceil>)"
  using ticks_alive_new_explosion [of 80 200 0 "\<lparr>px = Fin 400, py = Fin 300\<rparr>"]
  by (simp only: ceil_80) simp

section \<open>Properties: rockets stay on their ray\<close>









text \<open>The rocket pass.\<close>

lemma fin_damage_cities:
  "list_all (\<lambda>c. is_fin (c_x c)) (damage_cities x cs) = list_all (\<lambda>c. is_fin (c_x c)) cs"
  by (induction cs) (simp_all add: damage_cities_def)

lemma fin_damage_turrets:
  "list_all (\<lambda>t. is_fin (t_x t)) (damage_turrets x ts) = list_all (\<lambda>t. is_fin (t_x t)) ts"
  by (induction ts) (simp_all add: damage_turrets_def)


lemma update_rocket_frame:
  "score (snd (update_rocket r s)) = score s"
  "list_all (\<lambda>c. is_fin (c_x c)) (cities (snd (update_rocket r s))) =
     list_all (\<lambda>c. is_fin (c_x c)) (cities s)"
  "list_all (\<lambda>t. is_fin (t_x t)) (turrets (snd (update_rocket r s))) =
     list_all (\<lambda>t. is_fin (t_x t)) (turrets s)"
  by (simp_all add: update_rocket_def Let_def fin_damage_cities fin_damage_turrets)


lemma update_rockets_frame:
  "score (snd (update_rockets rs s)) = score s"
  "list_all (\<lambda>c. is_fin (c_x c)) (cities (snd (update_rockets rs s))) =
     list_all (\<lambda>c. is_fin (c_x c)) (cities s)"
  "list_all (\<lambda>t. is_fin (t_x t)) (turrets (snd (update_rockets rs s))) =
     list_all (\<lambda>t. is_fin (t_x t)) (turrets s)"
  by (induction rs arbitrary: s) (simp_all add: split_beta Let_def update_rocket_frame)



text \<open>The missile pass.\<close>

lemma update_missiles_frame:
  "score (snd (update_missiles ms s)) = score s"
  "cities (snd (update_missiles ms s)) = cities s"
  "rockets (snd (update_missiles ms s)) = rockets s"
  by (induction ms arbitrary: s) (simp_all add: split_beta Let_def update_missile_def)




lemma score_update_explosions: "score s \<le> score (snd (update_explosions es s))"
  using explosions_update_explosions [of es s] by auto















text \<open>
  \<open>on_ray\<close> says what it should: when the target is not the start, the current position
  is \<open>start + k (target - start)\<close> for some \<open>k \<ge> 0\<close>.
\<close>

lemma on_ray_param:
  assumes s: "r_start r = \<lparr>px = Fin sx, py = Fin sy\<rparr>"
    and t: "r_target r = \<lparr>px = Fin tx, py = Fin ty\<rparr>"
    and c: "r_current r = \<lparr>px = Fin cx, py = Fin cy\<rparr>"
    and ne: "sx \<noteq> tx \<or> sy \<noteq> ty"
  shows "on_ray r \<longleftrightarrow> (\<exists>k\<ge>0. cx = sx + k * (tx - sx) \<and> cy = sy + k * (ty - sy))"
proof
  define dx where "dx = tx - sx"
  define dy where "dy = ty - sy"
  define D where "D = dx * dx + dy * dy"
  from ne have "dx \<noteq> 0 \<or> dy \<noteq> 0" by (auto simp: dx_def dy_def)
  then have D: "0 < D" unfolding D_def by (auto simp: sum_squares_gt_zero_iff)
  assume "on_ray r"
  with s t c have cross: "(cx - sx) * dy = (cy - sy) * dx"
    and dot: "0 \<le> (cx - sx) * dx + (cy - sy) * dy"
    by (simp_all add: on_ray_def dx_def dy_def)
  define k where "k = ((cx - sx) * dx + (cy - sy) * dy) / D"
  have k: "0 \<le> k" using dot D by (simp add: k_def)
  have "k * dx * D = ((cx - sx) * dx + (cy - sy) * dy) * dx" using D by (simp add: k_def)
  also have "\<dots> = (cx - sx) * (dx * dx) + ((cy - sy) * dx) * dy" by (simp add: algebra_simps)
  also have "\<dots> = (cx - sx) * (dx * dx) + ((cx - sx) * dy) * dy" by (simp only: cross)
  also have "\<dots> = (cx - sx) * D" by (simp add: D_def algebra_simps)
  finally have x: "k * dx = cx - sx" using D by simp
  have "k * dy * D = ((cx - sx) * dx + (cy - sy) * dy) * dy" using D by (simp add: k_def)
  also have "\<dots> = ((cx - sx) * dy) * dx + (cy - sy) * (dy * dy)" by (simp add: algebra_simps)
  also have "\<dots> = ((cy - sy) * dx) * dx + (cy - sy) * (dy * dy)" by (simp only: cross)
  also have "\<dots> = (cy - sy) * D" by (simp add: D_def algebra_simps)
  finally have y: "k * dy = cy - sy" using D by simp
  from x y have "cx = sx + k * (tx - sx) \<and> cy = sy + k * (ty - sy)"
    by (simp add: dx_def dy_def)
  with k show "\<exists>k\<ge>0. cx = sx + k * (tx - sx) \<and> cy = sy + k * (ty - sy)" by blast
next
  assume "\<exists>k\<ge>0. cx = sx + k * (tx - sx) \<and> cy = sy + k * (ty - sy)"
  then obtain k where k: "0 \<le> k" "cx = sx + k * (tx - sx)" "cy = sy + k * (ty - sy)" by blast
  have "0 \<le> k * ((tx - sx) * (tx - sx) + (ty - sy) * (ty - sy))"
    using k(1) by (intro mult_nonneg_nonneg) simp_all
  then have "0 \<le> k * (tx - sx) * (tx - sx) + k * (ty - sy) * (ty - sy)"
    by (simp add: algebra_simps)
  with s t c k show "on_ray r"
    by (simp add: on_ray_def fin_point_def)
qed














section \<open>Properties: ids and score over a match\<close>

text \<open>
  Two facts that the claims above lean on: no missile ever carries the id \<open>-1\<close> when
  the missile pass begins (the hypothesis of C9), and the score never goes down in a
  tick (the part of C1 that the double award leaves untouched).
\<close>

lemma ids_spawn_rockets:
  "spawn_rockets f cv sc s = Inr s1 \<Longrightarrow> nextId s \<le> nextId s1 \<and> missiles s1 = missiles s"
  by (auto simp: spawn_rockets_def Let_def split: if_splits)

lemma ids_update_rockets:
  "nextId s \<le> nextId (snd (update_rockets rs s)) \<and>
   missiles (snd (update_rockets rs s)) = missiles s"
proof (induction rs arbitrary: s)
  case Nil
  show ?case by simp
next
  case (Cons r rs)
  have "nextId s \<le> nextId (snd (update_rocket r s))"
    "missiles (snd (update_rocket r s)) = missiles s"
    by (simp_all add: update_rocket_def Let_def)
  with Cons [of "snd (update_rocket r s)"] show ?case
    by (simp add: split_beta Let_def)
qed

lemma ids_rockets_pass:
  "nextId s \<le> nextId (rockets_pass s) \<and> missiles (rockets_pass s) = missiles s"
  using ids_update_rockets [of s "rockets s"] by (simp add: rockets_pass_def split_beta)

lemma nextId_update_missiles: "nextId s \<le> nextId (snd (update_missiles ms s))"
proof (induction ms arbitrary: s)
  case Nil
  show ?case by simp
next
  case (Cons m ms)
  have "nextId s \<le> nextId (snd (update_missile m s))"
    by (simp add: update_missile_def Let_def)
  with Cons [of "snd (update_missile m s)"] show ?case
    by (simp add: split_beta Let_def)
qed

lemma ids_missiles_pass:
  assumes "list_all (\<lambda>m. 0 \<le> m_id m) (missiles s)"
  shows "nextId s \<le> nextId (missiles_pass s) \<and>
         list_all (\<lambda>m. 0 \<le> m_id m) (missiles (missiles_pass s))"
proof -
  have "list_all (\<lambda>m. 0 \<le> m_id m)
          (filter (\<lambda>m. m_id m \<noteq> - 1)
             (map (\<lambda>m. if js_lt (getDistance (m_current (missile_move m)) (m_target m)) (m_speed m)
               then (missile_move m)\<lparr>m_id := - 1\<rparr> else missile_move m) ms))"
    if "list_all (\<lambda>m. 0 \<le> m_id m) ms" for ms
    using that by (induction ms) (simp_all add: m_id_missile_move)
  with assms nextId_update_missiles [of s "missiles s"] show ?thesis
    by (simp add: missiles_pass_def split_beta fst_update_missiles)
qed

lemma ids_collide_rockets:
  "nextId s \<le> nextId (snd (collide_rockets e rs s)) \<and>
   missiles (snd (collide_rockets e rs s)) = missiles s"
proof (induction rs arbitrary: s)
  case Nil
  show ?case by simp
next
  case (Cons r rs)
  show ?case
    using Cons [of s]
      Cons [of "s\<lparr>score := score s + ROCKET_SCORE,
                   explosions := explosions s @
                     [\<lparr>e_id = nextId s, pos = r_current r, radius = Fin 0,
                       maxRadius = Fin 30, growing = True, e_done = False\<rparr>],
                   nextId := nextId s + 1\<rparr>"]
    by (simp add: split_beta Let_def)
qed

lemma ids_update_explosions:
  "nextId s \<le> nextId (snd (update_explosions es s)) \<and>
   missiles (snd (update_explosions es s)) = missiles s"
proof (induction es arbitrary: s)
  case Nil
  show ?case by simp
next
  case (Cons e es)
  let ?c = "collide_rockets (explosion_grow e) (rockets s) s"
  from ids_collide_rockets [of s "explosion_grow e" "rockets s"]
    Cons [of "(snd ?c)\<lparr>rockets := fst ?c\<rparr>"]
  show ?case by (simp add: split_beta Let_def)
qed

lemma ids_explosions_pass:
  "nextId s \<le> nextId (explosions_pass s) \<and> missiles (explosions_pass s) = missiles s"
  using ids_update_explosions [of s "explosions s"]
  by (simp add: explosions_pass_def split_beta Let_def)

lemma ids_check_win_loss:
  "nextId (check_win_loss sc s) = nextId s \<and> missiles (check_win_loss sc s) = missiles s"
  by (simp add: check_win_loss_def Let_def)

lemma ids_update:
  assumes "0 \<le> nextId s" "list_all (\<lambda>m. 0 \<le> m_id m) (missiles s)" "update f s = Inr s'"
  shows "0 \<le> nextId s' \<and> list_all (\<lambda>m. 0 \<le> m_id m) (missiles s')"
proof (cases "gameState s \<noteq> PLAYING \<or> canvas f = None")
  case True
  with assms(3) have "s' = s" by (auto simp: update_def split: if_splits)
  with assms(1,2) show ?thesis by simp
next
  case False
  then obtain cv where cv: "gameState s = PLAYING" "canvas f = Some cv" by auto
  with assms(3) obtain s1 where s1: "spawn_rockets f cv (score s) s = Inr s1"
    and s': "s' = check_win_loss (score s) (explosions_pass (missiles_pass (rockets_pass s1)))"
    by (auto simp: update_def split: sum.splits)
  let ?s2 = "rockets_pass s1"
  from ids_spawn_rockets [OF s1] ids_rockets_pass [of s1] assms(1,2)
  have 2: "0 \<le> nextId ?s2" "list_all (\<lambda>m. 0 \<le> m_id m) (missiles ?s2)" by simp_all
  from ids_missiles_pass [OF 2(2)] 2(1) ids_explosions_pass [of "missiles_pass ?s2"]
  show ?thesis by (simp add: s' ids_check_win_loss)
qed

lemma ids_click:
  assumes "0 \<le> nextId s" "list_all (\<lambda>m. 0 \<le> m_id m) (missiles s)"
  shows "0 \<le> nextId (handleCanvasClick cv x y s) \<and>
         list_all (\<lambda>m. 0 \<le> m_id m) (missiles (handleCanvasClick cv x y s))"
  using assms by (simp add: handleCanvasClick_def Let_def split: option.splits)

text \<open>Ids come from the counter, which starts at 0 and only counts up.\<close>

lemma reachable_missile_ids:
  "reachable s \<Longrightarrow> 0 \<le> nextId s \<and> list_all (\<lambda>m. 0 \<le> m_id m) (missiles s)"
proof (induction rule: reachable.induct)
  case mounted
  show ?case by (simp add: initial_world_def)
next
  case (started s innerWidth now)
  then show ?case by (simp add: initGame_def Let_def split_beta)
next
  case (ticked s f s')
  then show ?case using ids_update [of s f s'] by simp
next
  case (clicked s cv x y)
  then show ?case using ids_click [of s cv x y] by simp
qed

text \<open>
  So the missile pass of a tick that starts in a reachable state meets no missile with
  the id \<open>-1\<close>.
\<close>

lemma missile_ids_in_tick:
  assumes "reachable s" and "spawn_rockets f cv sc s = Inr s1"
  shows "\<forall>m\<in>set (missiles (rockets_pass s1)). m_id m \<noteq> - 1"
proof -
  from ids_spawn_rockets [OF assms(2)] ids_rockets_pass [of s1]
  have "missiles (rockets_pass s1) = missiles s" by simp
  with reachable_missile_ids [OF assms(1)] show ?thesis
    by (auto simp: list_all_iff)
qed

text \<open>The score never goes down in a tick.\<close>

lemma score_update_mono: "update f s = Inr s' \<Longrightarrow> score s \<le> score s'"
proof (cases "gameState s \<noteq> PLAYING \<or> canvas f = None")
  case True
  assume "update f s = Inr s'"
  with True have "s' = s" by (auto simp: update_def split: if_splits)
  then show ?thesis by simp
next
  case False
  assume u: "update f s = Inr s'"
  from False obtain cv where cv: "gameState s = PLAYING" "canvas f = Some cv" by auto
  with u obtain s1 where s1: "spawn_rockets f cv (score s) s = Inr s1"
    and s': "s' = check_win_loss (score s) (explosions_pass (missiles_pass (rockets_pass s1)))"
    by (auto simp: update_def split: sum.splits)
  from s1 have a: "score s1 = score s" by (auto simp: spawn_rockets_def Let_def split: if_splits)
  have b: "score (rockets_pass s1) = score s1"
    by (simp add: rockets_pass_def split_beta update_rockets_frame)
  have c: "score (missiles_pass (rockets_pass s1)) = score (rockets_pass s1)"
    by (simp add: missiles_pass_def split_beta update_missiles_frame)
  have d: "score (missiles_pass (rockets_pass s1)) \<le>
           score (explosions_pass (missiles_pass (rockets_pass s1)))"
    using score_update_explosions [of "missiles_pass (rockets_pass s1)"
        "explosions (missiles_pass (rockets_pass s1))"]
    by (simp add: explosions_pass_def split_beta Let_def)
  have "score s' = score (explosions_pass (missiles_pass (rockets_pass s1)))"
    by (simp add: s' check_win_loss_def Let_def)
  with a b c d show ?thesis by simp
qed

end
